theory Spec2Isabelle
  imports Complex_Main
begin

section \<open>Values received from the text model\<close>

text \<open>
  \<open>validateDirection\<close> takes \<open>direction: any\<close>, the value that \<open>JSON.parse\<close> produced from
  the reply of the text model. A JavaScript number is a double; it is modelled by the
  rational that it denotes (\<open>NaN\<close> and the infinities cannot come out of \<open>JSON.parse\<close>). A
  property that is absent from an object reads as \<open>undefined\<close>, which is \<open>None\<close>.
\<close>

datatype json =
    JNull
  | JBool bool
  | JNum rat
  | JStr string
  | JArr "json list"
  | JObj "(string \<times> json) list"

text \<open>\<open>x.k\<close> for a value \<open>x\<close> that is not \<open>null\<close>; in a parsed object the last of two equal keys wins.\<close>

fun get_prop :: "json \<Rightarrow> string \<Rightarrow> json option" where
  "get_prop (JObj kvs) k = map_of (rev kvs) k"
| "get_prop _ k = None"

text \<open>JavaScript truthiness, as \<open>!x\<close> and \<open>if (x)\<close> test it.\<close>

fun truthy :: "json option \<Rightarrow> bool" where
  "truthy None = False"
| "truthy (Some JNull) = False"
| "truthy (Some (JBool b)) = b"
| "truthy (Some (JNum n)) = (n \<noteq> 0)"
| "truthy (Some (JStr s)) = (s \<noteq> [])"
| "truthy (Some (JArr xs)) = True"
| "truthy (Some (JObj kvs)) = True"

text \<open>The test \<open>!x || typeof x !== 'string'\<close> fails exactly on a string that is not empty.\<close>

fun nonempty_string :: "json option \<Rightarrow> string option" where
  "nonempty_string (Some (JStr s)) = (if s = [] then None else Some s)"
| "nonempty_string _ = None"

text \<open>\<open>Array.isArray(x) && x.length !== 0\<close>.\<close>

fun nonempty_array :: "json option \<Rightarrow> json list option" where
  "nonempty_array (Some (JArr xs)) = (if xs = [] then None else Some xs)"
| "nonempty_array _ = None"

section \<open>Numbers: the arithmetic of doubles\<close>

text \<open>
  The sum, the difference, the product and the quotient of two doubles are the exact
  results rounded to the nearest double, a tie going to the double whose last bit is 0
  (IEEE 754 binary64: 53 significant bits). \<open>bits k\<close> is the number of binary digits of a
  positive integer, \<open>exponent x\<close> the integer \<open>e\<close> with \<open>2^e \<le> |x| < 2^(e+1)\<close>, and
  \<open>binary64 x\<close> the double nearest to \<open>x\<close>. The range of the exponent is not bounded here:
  a result too large for a double does not become \<open>Infinity\<close>, and one in the subnormal
  range keeps its 53 bits. The sums and bounds of a direction that the validator accepts
  and the quotients of \<open>updateProgress\<close> are far from both ranges.
\<close>

function bits :: "int \<Rightarrow> nat" where
  "bits k = (if k \<le> 0 then 0 else Suc (bits (k div 2)))"
  by pat_completeness auto
termination
  by (relation "measure nat") auto

declare bits.simps [simp del]

definition pow2 :: "int \<Rightarrow> rat" where
  "pow2 k = (if 0 \<le> k then 2 ^ nat k else 1 / 2 ^ nat (- k))"

definition exponent :: "rat \<Rightarrow> int" where
  "exponent x =
     (case quotient_of \<bar>x\<bar> of (p, q) \<Rightarrow>
        let d = int (bits p) - int (bits q)
        in if pow2 d \<le> \<bar>x\<bar> then d else d - 1)"

definition round_half_even :: "rat \<Rightarrow> int" where
  "round_half_even x =
     (let f = \<lfloor>x\<rfloor>; r = x - of_int f
      in if r < 1 / 2 then f else if 1 / 2 < r then f + 1 else if even f then f else f + 1)"

definition binary64 :: "rat \<Rightarrow> rat" where
  "binary64 x =
     (if x = 0 then 0
      else let ulp = pow2 (exponent x - 52)
           in of_int (round_half_even (x / ulp)) * ulp)"

text \<open>\<open>a + b\<close>, \<open>a - b\<close>, \<open>a * b\<close> and \<open>a / b\<close> of the program, and its literal \<open>0.1\<close>.\<close>

definition dadd :: "rat \<Rightarrow> rat \<Rightarrow> rat" where
  "dadd a b = binary64 (a + b)"

definition dsub :: "rat \<Rightarrow> rat \<Rightarrow> rat" where
  "dsub a b = binary64 (a - b)"

definition dmul :: "rat \<Rightarrow> rat \<Rightarrow> rat" where
  "dmul a b = binary64 (a * b)"

definition ddiv :: "rat \<Rightarrow> rat \<Rightarrow> rat" where
  "ddiv a b = binary64 (a / b)"

definition tenth :: rat where
  "tenth = binary64 (1 / 10)"

section \<open>Strings: whitespace, \<open>trim\<close> and \<open>split(/\s+/)\<close>\<close>

text \<open>
  The white space of \<open>String.prototype.trim\<close> and of the class \<open>\s\<close>, on the code units
  that a \<open>char\<close> can hold: tab, line feed, vertical tab, form feed, carriage return, space
  and the no-break space.
\<close>

definition is_ws :: "char \<Rightarrow> bool" where
  "is_ws c = (of_char c \<in> {9, 10, 11, 12, 13, 32, 160 :: nat})"

definition trim :: "string \<Rightarrow> string" where
  "trim s = rev (dropWhile is_ws (rev (dropWhile is_ws s)))"

text \<open>
  \<open>s.split(/\s+/)\<close>: the pieces between maximal runs of white space. A run at the start or
  at the end of the string leaves an empty piece there, and the empty string gives one
  empty piece. The flag says that the previous character belonged to a run.
\<close>

fun split_from :: "bool \<Rightarrow> string \<Rightarrow> string list" where
  "split_from inrun [] = [[]]"
| "split_from inrun (c # cs) =
     (if is_ws c then
        (if inrun then split_from True cs else [] # split_from True cs)
      else
        (case split_from False cs of
           [] \<Rightarrow> [[c]]
         | t # ts \<Rightarrow> (c # t) # ts))"

definition split_ws :: "string \<Rightarrow> string list" where
  "split_ws s = split_from False s"

section \<open>The AI Director: \<open>director/parser.ts\<close>\<close>

subsection \<open>Data\<close>

text \<open>
  \<open>DirectedShot\<close>, \<open>DirectedScene\<close> and \<open>VideoDirection\<close>. The field \<open>id\<close> of a shot and of a
  scene is \<open>shot_id\<close> and \<open>scene_id\<close> here.
\<close>

record DirectedShot =
  shot_id :: rat
  duration :: rat
  startPrompt :: string
  endPrompt :: string
  motionPrompt :: string
  cameraMove :: string
  lighting :: string
  colorPalette :: "string option"
  transitionIn :: "string option"
  transitionOut :: "string option"

record DirectedScene =
  scene_id :: rat
  name :: string
  description :: string
  mood :: string
  shots :: "DirectedShot list"

record VideoDirection =
  title :: string
  narrative :: string
  totalDuration :: rat
  scenes :: "DirectedScene list"

record ValidationInput =
  targetDuration :: rat
  aspectRatio :: string
  maxScenes :: "rat option"
  maxShotsPerScene :: "rat option"

text \<open>
  What the parser and the director throw. A \<open>ValidationError\<close> carries its \<open>field\<close>, and the
  \<open>sceneId\<close> and \<open>shotId\<close> as they were read from the input; its message text is left out.
  \<open>TypeError\<close> is what the engine throws on \<open>null.id\<close> and on \<open>.trim()\<close> of a value that has
  no such method. \<open>PlainError\<close> is an \<open>Error\<close> with the given message.
\<close>

datatype error =
    ValidationError "string option" "json option" "json option"
  | TypeError
  | PlainError string

definition validCameraMoves :: "string list" where
  "validCameraMoves =
     [''static'', ''push_in'', ''pull_out'', ''pan_left'', ''pan_right'', ''tilt_up'',
      ''tilt_down'', ''crane_up'', ''crane_down'', ''dolly_left'', ''dolly_right'']"

definition validTransitions :: "string list" where
  "validTransitions =
     [''cut'', ''crossfade'', ''fade_black'', ''fade_white'', ''wipe_left'', ''wipe_right'']"

text \<open>\<open>xs.includes(v)\<close> for a list of strings: only a string can be a member.\<close>

fun includes_str :: "string list \<Rightarrow> json option \<Rightarrow> bool" where
  "includes_str xs (Some (JStr s)) = (s \<in> set xs)"
| "includes_str xs _ = False"

text \<open>
  The cast \<open>shot as DirectedShot\<close> of a shot that passed every check reads the three
  optional fields, which no check has looked at, at their declared type: a value that is
  not a string is read as absent. The one place where such a value would matter is
  \<open>shot.colorPalette?.trim()\<close> of the normalizer; \<open>parseDirection\<close> below has that branch.
\<close>

fun opt_string :: "json option \<Rightarrow> string option" where
  "opt_string (Some (JStr s)) = Some s"
| "opt_string _ = None"

subsection \<open>\<open>validateDirection\<close>\<close>

text \<open>
  The body of the inner loop for the shot at index \<open>j\<close> of the scene whose \<open>id\<close> read as
  \<open>sid\<close>. The checks are in the order of the source; the first that fails throws.
\<close>

definition validateShot :: "json option \<Rightarrow> nat \<Rightarrow> json \<Rightarrow> error + DirectedShot" where
  "validateShot sid j shot =
     (if shot = JNull then Inl TypeError
      else if get_prop shot ''id'' \<noteq> Some (JNum (of_nat (j + 1))) then
        Inl (ValidationError (Some ''id'') sid (get_prop shot ''id''))
      else
        (case get_prop shot ''duration'' of
           Some (JNum d) \<Rightarrow>
             if d < 5 \<or> d > 10 then
               Inl (ValidationError (Some ''duration'') sid (get_prop shot ''id''))
             else
               (case nonempty_string (get_prop shot ''startPrompt'') of
                  None \<Rightarrow> Inl (ValidationError (Some ''startPrompt'') sid (get_prop shot ''id''))
                | Some sp \<Rightarrow>
               (case nonempty_string (get_prop shot ''endPrompt'') of
                  None \<Rightarrow> Inl (ValidationError (Some ''endPrompt'') sid (get_prop shot ''id''))
                | Some ep \<Rightarrow>
               (case nonempty_string (get_prop shot ''motionPrompt'') of
                  None \<Rightarrow> Inl (ValidationError (Some ''motionPrompt'') sid (get_prop shot ''id''))
                | Some mp \<Rightarrow>
                  if length (split_ws sp) < 20 then
                    Inl (ValidationError (Some ''startPrompt'') sid (get_prop shot ''id''))
                  else if length (split_ws ep) < 20 then
                    Inl (ValidationError (Some ''endPrompt'') sid (get_prop shot ''id''))
                  else if \<not> includes_str validCameraMoves (get_prop shot ''cameraMove'') then
                    Inl (ValidationError (Some ''cameraMove'') sid (get_prop shot ''id''))
                  else
                    (case (opt_string (get_prop shot ''cameraMove''),
                           nonempty_string (get_prop shot ''lighting'')) of
                       (Some cm, Some li) \<Rightarrow>
                         if truthy (get_prop shot ''transitionOut'')
                            \<and> \<not> includes_str validTransitions (get_prop shot ''transitionOut'')
                         then Inl (ValidationError (Some ''transitionOut'') sid (get_prop shot ''id''))
                         else Inr \<lparr> shot_id = of_nat (j + 1), duration = d,
                                    startPrompt = sp, endPrompt = ep, motionPrompt = mp,
                                    cameraMove = cm, lighting = li,
                                    colorPalette = opt_string (get_prop shot ''colorPalette''),
                                    transitionIn = opt_string (get_prop shot ''transitionIn''),
                                    transitionOut = opt_string (get_prop shot ''transitionOut'') \<rparr>
                     | _ \<Rightarrow> Inl (ValidationError (Some ''lighting'') sid (get_prop shot ''id''))))))
         | _ \<Rightarrow> Inl (ValidationError (Some ''duration'') sid (get_prop shot ''id''))))"

text \<open>
  The inner loop from index \<open>j\<close> on. \<open>acc\<close> is \<open>totalCalculatedDuration\<close>, to which the
  source adds the duration of a shot (\<open>+=\<close>, an addition of doubles) right after its
  duration check; the sum only matters once every shot has passed.
\<close>

fun validateShots ::
  "json option \<Rightarrow> nat \<Rightarrow> rat \<Rightarrow> json list \<Rightarrow> error + (rat \<times> DirectedShot list)" where
  "validateShots sid j acc [] = Inr (acc, [])"
| "validateShots sid j acc (shot # rest) =
     (case validateShot sid j shot of
        Inl e \<Rightarrow> Inl e
      | Inr v \<Rightarrow>
          (case validateShots sid (Suc j) (dadd acc (duration v)) rest of
             Inl e \<Rightarrow> Inl e
           | Inr (acc', vs) \<Rightarrow> Inr (acc', v # vs)))"

text \<open>\<open>input.maxScenes && n > input.maxScenes\<close>, and the same for \<open>maxShotsPerScene\<close>.\<close>

fun exceeds :: "rat option \<Rightarrow> nat \<Rightarrow> bool" where
  "exceeds None n = False"
| "exceeds (Some m) n = (m \<noteq> 0 \<and> of_nat n > m)"

text \<open>The body of the outer loop for the scene at index \<open>i\<close>.\<close>

definition validateScene ::
  "ValidationInput \<Rightarrow> nat \<Rightarrow> rat \<Rightarrow> json \<Rightarrow> error + (rat \<times> DirectedScene)" where
  "validateScene input i acc scene =
     (if scene = JNull then Inl TypeError
      else if get_prop scene ''id'' \<noteq> Some (JNum (of_nat (i + 1))) then
        Inl (ValidationError (Some ''id'') (get_prop scene ''id'') None)
      else
        (case nonempty_string (get_prop scene ''name'') of
           None \<Rightarrow> Inl (ValidationError (Some ''name'') (get_prop scene ''id'') None)
         | Some nm \<Rightarrow>
        (case nonempty_string (get_prop scene ''description'') of
           None \<Rightarrow> Inl (ValidationError (Some ''description'') (get_prop scene ''id'') None)
         | Some de \<Rightarrow>
        (case nonempty_string (get_prop scene ''mood'') of
           None \<Rightarrow> Inl (ValidationError (Some ''mood'') (get_prop scene ''id'') None)
         | Some mo \<Rightarrow>
        (case nonempty_array (get_prop scene ''shots'') of
           None \<Rightarrow> Inl (ValidationError (Some ''shots'') (get_prop scene ''id'') None)
         | Some raw_shots \<Rightarrow>
             if exceeds (maxShotsPerScene input) (length raw_shots) then
               Inl (ValidationError (Some ''shots'') (get_prop scene ''id'') None)
             else
               (case validateShots (get_prop scene ''id'') 0 acc raw_shots of
                  Inl e \<Rightarrow> Inl e
                | Inr (acc', vs) \<Rightarrow>
                    Inr (acc', \<lparr> scene_id = of_nat (i + 1), name = nm, description = de,
                                   mood = mo, shots = vs \<rparr>)))))))"

fun validateScenes ::
  "ValidationInput \<Rightarrow> nat \<Rightarrow> rat \<Rightarrow> json list \<Rightarrow> error + (rat \<times> DirectedScene list)" where
  "validateScenes input i acc [] = Inr (acc, [])"
| "validateScenes input i acc (scene # rest) =
     (case validateScene input i acc scene of
        Inl e \<Rightarrow> Inl e
      | Inr (acc1, v) \<Rightarrow>
          (case validateScenes input (Suc i) acc1 rest of
             Inl e \<Rightarrow> Inl e
           | Inr (acc', vs) \<Rightarrow> Inr (acc', v # vs)))"

text \<open>\<open>!direction || typeof direction !== 'object'\<close>: an object or an array passes.\<close>

fun is_object :: "json \<Rightarrow> bool" where
  "is_object (JObj kvs) = True"
| "is_object (JArr xs) = True"
| "is_object _ = False"

fun positive_number :: "json option \<Rightarrow> bool" where
  "positive_number (Some (JNum n)) = (n > 0)"
| "positive_number _ = False"

definition validateDirection :: "json \<Rightarrow> ValidationInput \<Rightarrow> error + VideoDirection" where
  "validateDirection direction input =
     (if \<not> is_object direction then Inl (ValidationError None None None)
      else
        (case nonempty_string (get_prop direction ''title'') of
           None \<Rightarrow> Inl (ValidationError (Some ''title'') None None)
         | Some ti \<Rightarrow>
        (case nonempty_string (get_prop direction ''narrative'') of
           None \<Rightarrow> Inl (ValidationError (Some ''narrative'') None None)
         | Some na \<Rightarrow>
             if \<not> positive_number (get_prop direction ''totalDuration'') then
               Inl (ValidationError (Some ''totalDuration'') None None)
             else
               (case nonempty_array (get_prop direction ''scenes'') of
                  None \<Rightarrow> Inl (ValidationError (Some ''scenes'') None None)
                | Some raw_scenes \<Rightarrow>
                    if exceeds (maxScenes input) (length raw_scenes) then
                      Inl (ValidationError (Some ''scenes'') None None)
                    else
                      (case validateScenes input 0 0 raw_scenes of
                         Inl e \<Rightarrow> Inl e
                       | Inr (totalCalculatedDuration, validatedScenes) \<Rightarrow>
                           let tolerance = dmul (targetDuration input) tenth;
                               minDuration = dsub (targetDuration input) tolerance;
                               maxDuration = dadd (targetDuration input) tolerance
                           in if totalCalculatedDuration < minDuration
                                 \<or> totalCalculatedDuration > maxDuration
                              then Inl (ValidationError (Some ''totalDuration'') None None)
                              else Inr \<lparr> title = ti, narrative = na,
                                         totalDuration = totalCalculatedDuration,
                                         scenes = validatedScenes \<rparr>)))))"

subsection \<open>\<open>normalizeDirection\<close>\<close>

text \<open>
  \<open>Math.round(x * 10) / 10\<close>; \<open>Math.round\<close> rounds a tie upwards. The normalizer is kept in
  exact arithmetic: its result is the decimal \<open>k / 10\<close>, where the program has the double
  nearest to it.
\<close>

definition round1 :: "rat \<Rightarrow> rat" where
  "round1 x = of_int \<lfloor>x * 10 + 1 / 2\<rfloor> / 10"

text \<open>\<open>shot.transitionOut || 'cut'\<close>.\<close>

fun or_cut :: "string option \<Rightarrow> string" where
  "or_cut None = ''cut''"
| "or_cut (Some t) = (if t = [] then ''cut'' else t)"

definition normalizeShot :: "nat \<Rightarrow> DirectedShot \<Rightarrow> DirectedShot" where
  "normalizeShot shotIndex shot =
     shot \<lparr> shot_id := of_nat (shotIndex + 1),
            duration := round1 (duration shot),
            startPrompt := trim (startPrompt shot),
            endPrompt := trim (endPrompt shot),
            motionPrompt := trim (motionPrompt shot),
            lighting := trim (lighting shot),
            colorPalette := map_option trim (colorPalette shot),
            transitionOut := Some (or_cut (transitionOut shot)) \<rparr>"

definition normalizeScene :: "nat \<Rightarrow> DirectedScene \<Rightarrow> DirectedScene" where
  "normalizeScene sceneIndex scene =
     scene \<lparr> scene_id := of_nat (sceneIndex + 1),
             name := trim (name scene),
             description := trim (description scene),
             mood := trim (mood scene),
             shots := map (\<lambda>(shotIndex, shot). normalizeShot shotIndex shot)
                          (enumerate 0 (shots scene)) \<rparr>"

definition normalizeDirection :: "VideoDirection \<Rightarrow> VideoDirection" where
  "normalizeDirection direction =
     (let normalizedScenes =
            map (\<lambda>(sceneIndex, scene). normalizeScene sceneIndex scene)
                (enumerate 0 (scenes direction));
          summed =
            foldl (\<lambda>t scene. t + foldl (\<lambda>s shot. s + duration shot) 0 (shots scene))
                  0 normalizedScenes
      in direction \<lparr> title := trim (title direction),
                      narrative := trim (narrative direction),
                      totalDuration := round1 summed,
                      scenes := normalizedScenes \<rparr>)"

subsection \<open>\<open>parseDirection\<close>\<close>

text \<open>
  The validated scenes hold the shot objects of the input themselves, so the normalizer
  reads \<open>colorPalette\<close> as the text model sent it. \<open>v?.trim()\<close> is \<open>undefined\<close> for
  \<open>undefined\<close> and \<open>null\<close>, the trimmed string for a string, and a \<open>TypeError\<close> for any
  other value.
\<close>

fun untrimmable :: "json option \<Rightarrow> bool" where
  "untrimmable None = False"
| "untrimmable (Some JNull) = False"
| "untrimmable (Some (JStr s)) = False"
| "untrimmable (Some v) = True"

fun elements :: "json option \<Rightarrow> json list" where
  "elements (Some (JArr xs)) = xs"
| "elements _ = []"

definition palette_throws :: "json \<Rightarrow> bool" where
  "palette_throws direction =
     list_ex (\<lambda>scene. list_ex (\<lambda>shot. untrimmable (get_prop shot ''colorPalette''))
                                 (elements (get_prop scene ''shots'')))
             (elements (get_prop direction ''scenes''))"

definition parseDirection :: "json \<Rightarrow> ValidationInput \<Rightarrow> error + VideoDirection" where
  "parseDirection rawDirection input =
     (case validateDirection rawDirection input of
        Inl e \<Rightarrow> Inl e
      | Inr validated \<Rightarrow>
          if palette_throws rawDirection then Inl TypeError
          else Inr (normalizeDirection validated))"

subsection \<open>\<open>AIDirector.refine\<close>: \<open>director/index.ts\<close>\<close>

text \<open>
  \<open>llm\<close> is the outcome of \<open>this.llm.json(messages)\<close>: the parsed reply, or what the call
  threw. The prior direction and the feedback go into the messages only. A
  \<open>ValidationError\<close> is rethrown as a plain \<open>Error\<close> whose message starts as given here and
  goes on with the message of the validation error; anything else is rethrown as it is.
\<close>

definition refine_input :: "VideoDirection \<Rightarrow> ValidationInput" where
  "refine_input direction =
     \<lparr> targetDuration = totalDuration direction,
       aspectRatio = ''16:9'',
       maxScenes = Some (of_nat (length (scenes direction) + 2)),
       maxShotsPerScene = None \<rparr>"

fun rethrow_refine :: "error \<Rightarrow> error" where
  "rethrow_refine (ValidationError f sc sh) = PlainError ''Refined direction validation failed''"
| "rethrow_refine e = e"

definition refine :: "VideoDirection \<Rightarrow> error + json \<Rightarrow> error + VideoDirection" where
  "refine direction llm =
     (case llm of
        Inl e \<Rightarrow> Inl (rethrow_refine e)
      | Inr rawDirection \<Rightarrow>
          (case parseDirection rawDirection (refine_input direction) of
             Inl e \<Rightarrow> Inl (rethrow_refine e)
           | Inr validatedDirection \<Rightarrow> Inr validatedDirection))"

subsection \<open>Notions used to state the properties\<close>



subsection \<open>Concrete directions\<close>

text \<open>
  A prompt of twenty one-letter words, and one of eighteen words with a space before and
  after, which \<open>split(/\s+/)\<close> cuts into twenty pieces, the first and the last empty.
\<close>

definition words20 :: string where
  "words20 = ''a b c d e f g h i j k l m n o p q r s t''"


definition example_shot :: "rat \<Rightarrow> string \<Rightarrow> string \<Rightarrow> json" where
  "example_shot d sp mp =
     JObj [(''id'', JNum 1), (''duration'', JNum d), (''startPrompt'', JStr sp),
           (''endPrompt'', JStr words20), (''motionPrompt'', JStr mp),
           (''cameraMove'', JStr ''static''), (''lighting'', JStr ''soft'')]"

definition example_scene :: "nat \<Rightarrow> json \<Rightarrow> json" where
  "example_scene i shot =
     JObj [(''id'', JNum (of_nat i)), (''name'', JStr ''n''), (''description'', JStr ''d''),
           (''mood'', JStr ''m''), (''shots'', JArr [shot])]"

definition example_direction :: "json list \<Rightarrow> json" where
  "example_direction raw_scenes =
     JObj [(''title'', JStr ''T''), (''narrative'', JStr ''N''), (''totalDuration'', JNum 5),
           (''scenes'', JArr raw_scenes)]"

definition example_input :: "rat \<Rightarrow> ValidationInput" where
  "example_input t = \<lparr> targetDuration = t, aspectRatio = ''16:9'',
                        maxScenes = None, maxShotsPerScene = None \<rparr>"

definition expected_shot :: "rat \<Rightarrow> string \<Rightarrow> string \<Rightarrow> DirectedShot" where
  "expected_shot d sp mp =
     \<lparr> shot_id = 1, duration = d, startPrompt = sp, endPrompt = words20, motionPrompt = mp,
       cameraMove = ''static'', lighting = ''soft'', colorPalette = None, transitionIn = None,
       transitionOut = Some ''cut'' \<rparr>"

definition expected_scene :: "nat \<Rightarrow> DirectedShot \<Rightarrow> DirectedScene" where
  "expected_scene i shot =
     \<lparr> scene_id = of_nat i, name = ''n'', description = ''d'', mood = ''m'', shots = [shot] \<rparr>"

definition expected_plan :: "rat \<Rightarrow> DirectedScene list \<Rightarrow> VideoDirection" where
  "expected_plan t scs = \<lparr> title = ''T'', narrative = ''N'', totalDuration = t, scenes = scs \<rparr>"

definition three_scenes :: "json list" where
  "three_scenes = map (\<lambda>i. example_scene i (example_shot 5 words20 ''pan'')) [1, 2, 3]"

definition four_scenes :: "json list" where
  "four_scenes = map (\<lambda>i. example_scene i (example_shot 5 words20 ''pan'')) [1, 2, 3, 4]"

text \<open>A prior plan of one scene with two shots of 7.5 s, and replies of three and four scenes.\<close>

definition prior_plan :: VideoDirection where
  "prior_plan =
     expected_plan 15
       [\<lparr> scene_id = 1, name = ''n'', description = ''d'', mood = ''m'',
          shots = [expected_shot (15 / 2) words20 ''pan'',
                   (expected_shot (15 / 2) words20 ''pan'')\<lparr>shot_id := 2\<rparr>] \<rparr>]"

definition three_scene_plan :: VideoDirection where
  "three_scene_plan = expected_plan 15 (map (\<lambda>i. expected_scene i (expected_shot 5 words20 ''pan'')) [1, 2, 3])"

section \<open>The job: \<open>durable-objects/VideoJob.ts\<close>\<close>

subsection \<open>Data\<close>

datatype JobStatus =
    Pending
  | Generating_images
  | Images_complete
  | Generating_videos
  | Videos_complete
  | Compiling
  | Complete
  | Failed

datatype SceneStatus =
    S_pending
  | S_generating_start_image
  | S_generating_end_image
  | S_generating_video
  | S_polling_video
  | S_complete
  | S_failed

text \<open>
  \<open>Scene\<close>, the shot of the job, with its fields prefixed by \<open>sc_\<close>; \<open>SceneJobState\<close>, with
  \<open>status\<close> and \<open>error\<close> as \<open>sceneStatus\<close> and \<open>sceneError\<close>; \<open>VideoJobState\<close>, with \<open>id\<close> and
  \<open>scenes\<close> as \<open>jobId\<close> and \<open>jobScenes\<close>. The storage keys (\<open>R2Key\<close>), which the class never
  writes, the two timestamps and the aspect ratio, which is only handed on to the
  services, are left out.
\<close>

record Scene =
  sc_id :: int
  sc_name :: string
  sc_startPrompt :: string
  sc_endPrompt :: string
  sc_motionPrompt :: string
  sc_duration :: rat

record SceneJobState =
  sceneId :: int
  startImageUrl :: "string option"
  endImageUrl :: "string option"
  videoRequestId :: "string option"
  videoUrl :: "string option"
  sceneStatus :: SceneStatus
  sceneError :: "string option"

record VideoJobState =
  jobId :: string
  projectId :: string
  status :: JobStatus
  jobScenes :: "SceneJobState list"
  finalVideoUrl :: "string option"
  progress :: int
  error :: "string option"

text \<open>An optional string is truthy when it is there and not empty.\<close>

fun present :: "string option \<Rightarrow> bool" where
  "present None = False"
| "present (Some u) = (u \<noteq> [])"

subsection \<open>The services and the object\<close>

text \<open>
  The calls that leave the object, in the order in which they are made. A service answers
  the \<open>n\<close>-th call of the job (\<open>n\<close> calls were made before) with a value or by throwing an
  \<open>Error\<close> with a message (\<open>Inl\<close>); an answer may depend on \<open>n\<close>, as the answer of a queue
  depends on the time. The value is the field that the caller reads from the reply
  (\<open>images[0].url\<close>, \<open>request_id\<close>, \<open>status\<close>, \<open>video.url\<close>, \<open>id\<close>); a reply in which that field
  is empty is the answer \<open>Inr []\<close>, and a reply from which it cannot be read (\<open>images\<close> is
  empty, \<open>video\<close> is missing) makes the caller throw, which is \<open>Inl\<close> here as well.
\<close>

datatype call =
    GenerateImage string
  | SubmitVideoGeneration string string string
  | CheckVideoStatus string
  | GetVideoResult string
  | CompileVideo "string list"
  | CheckRenderStatus string

datatype queue_status = IN_QUEUE | IN_PROGRESS | COMPLETED | FAILED

datatype render_status = Planned | Rendering | Succeeded | Render_failed

record render =
  render_status :: render_status
  render_url :: "string option"
  render_error_message :: "string option"

text \<open>
  What the object reaches through \<open>this.env\<close>: the two services, which it constructs from
  \<open>FAL_API_KEY\<close> and \<open>CREATOMATE_API_KEY\<close>, and the database \<open>DB\<close> that holds the settings of
  the user. Of the settings only the compile provider is kept here: the \<open>providerName\<close> that
  \<open>PUT /api/settings\<close> stored for the provider \<open>compile\<close>, if any. The settings page offers
  \<open>creatomate\<close>, \<open>shotstack\<close> and \<open>none\<close>, and \<open>none\<close> is what it starts with. The requests that
  the router sends to the object (\<open>/initialize\<close> and \<open>/start\<close>) carry the scenes and the
  aspect ratio and no provider.
\<close>

record services =
  fal_generateImage :: "nat \<Rightarrow> string \<Rightarrow> string + string"
  fal_submitVideoGeneration :: "nat \<Rightarrow> string \<Rightarrow> string \<Rightarrow> string \<Rightarrow> string + string"
  fal_checkVideoStatus :: "nat \<Rightarrow> string \<Rightarrow> string + queue_status"
  fal_getVideoResult :: "nat \<Rightarrow> string \<Rightarrow> string + string"
  creatomate_compileVideo :: "nat \<Rightarrow> string list \<Rightarrow> string + string"
  creatomate_checkRenderStatus :: "nat \<Rightarrow> string \<Rightarrow> string + render"
  settings_compile_provider :: "string option"

text \<open>
  What the object holds besides \<open>this.state\<close>: the counter \<open>pollAttempts\<close>, the rows that
  \<open>saveState\<close> has written (the last one is the row of the table), the number of times
  \<open>setAlarm\<close> was called, and the calls made so far. A handler works on the pair of
  \<open>this.state\<close> and the rest.
\<close>

record runtime =
  pollAttempts :: nat
  stored :: "VideoJobState list"
  alarmsSet :: nat
  calls :: "call list"

type_synonym job = "VideoJobState \<times> runtime"

datatype 'a outcome = Returned 'a | Threw string 'a

definition POLL_INTERVAL_MS :: nat where
  "POLL_INTERVAL_MS = 30000"

definition MAX_POLL_ATTEMPTS :: nat where
  "MAX_POLL_ATTEMPTS = 40"

definition log_call :: "call \<Rightarrow> runtime \<Rightarrow> runtime" where
  "log_call c i = i\<lparr>calls := calls i @ [c]\<rparr>"

definition setAlarm :: "runtime \<Rightarrow> runtime" where
  "setAlarm i = i\<lparr>alarmsSet := alarmsSet i + 1\<rparr>"

subsection \<open>\<open>loadState\<close>, \<open>saveState\<close>, \<open>updateProgress\<close>\<close>

text \<open>The row that \<open>saveState\<close> writes: \<open>finalVideoUrl || null\<close> and \<open>error || null\<close>.\<close>

definition row_of :: "VideoJobState \<Rightarrow> VideoJobState" where
  "row_of s = s\<lparr> finalVideoUrl := (if present (finalVideoUrl s) then finalVideoUrl s else None),
                 error := (if present (error s) then error s else None) \<rparr>"

definition saveState :: "job \<Rightarrow> job" where
  "saveState = (\<lambda>(s, i). (s, i\<lparr>stored := stored i @ [row_of s]\<rparr>))"

definition loadState :: "VideoJobState option \<times> runtime \<Rightarrow> VideoJobState option \<times> runtime" where
  "loadState = (\<lambda>(this_state, i).
     case this_state of
       Some s \<Rightarrow> (Some s, i)
     | None \<Rightarrow> (if stored i = [] then None else Some (last (stored i)), i))"

text \<open>
  \<open>Math.round((completedSteps / totalSteps) * 100)\<close>: the quotient and the product are
  doubles, and \<open>Math.round\<close> gives the integer nearest to its argument, a tie going
  upwards. \<open>totalSteps\<close> is never 0.
\<close>

definition completed_of :: "SceneJobState \<Rightarrow> nat" where
  "completed_of scene =
     (if present (startImageUrl scene) then 1 else 0)
     + (if present (endImageUrl scene) then 1 else 0)
     + (if present (videoUrl scene) then 1 else 0)"

definition updateProgress :: "VideoJobState \<Rightarrow> VideoJobState" where
  "updateProgress s =
     (let totalSteps = length (jobScenes s) * 3 + 1;
          counted = foldl (\<lambda>completedSteps scene. completedSteps + completed_of scene) 0 (jobScenes s);
          completedSteps = (if status s = Complete then totalSteps else counted)
      in s\<lparr>progress :=
             \<lfloor>dmul (ddiv (rat_of_nat completedSteps) (rat_of_nat totalSteps)) 100 + 1 / 2\<rfloor>\<rparr>)"

subsection \<open>\<open>initialize\<close>\<close>

definition initialize ::
  "string \<Rightarrow> string \<Rightarrow> Scene list \<Rightarrow> VideoJobState option \<times> runtime
     \<Rightarrow> VideoJobState option \<times> runtime" where
  "initialize jid pid scene_list = (\<lambda>(this_state, i).
     case saveState
            (\<lparr> jobId = jid, projectId = pid, status = Pending,
               jobScenes = map (\<lambda>scene. \<lparr> sceneId = sc_id scene, startImageUrl = None,
                                            endImageUrl = None, videoRequestId = None,
                                            videoUrl = None, sceneStatus = S_pending,
                                            sceneError = None \<rparr>) scene_list,
               finalVideoUrl = None, progress = 0, error = None \<rparr>, i) of
       (s, i') \<Rightarrow> (Some s, i'))"

subsection \<open>\<open>compileVideo\<close> and \<open>pollRenderCompletion\<close>\<close>

text \<open>The \<open>catch\<close> blocks of the three phases: the job fails with the message of the error.\<close>

definition fail_with :: "string \<Rightarrow> job \<Rightarrow> job" where
  "fail_with message = (\<lambda>(s, i). saveState (s\<lparr>status := Failed, error := Some message\<rparr>, i))"

fun or_default :: "string option \<Rightarrow> string \<Rightarrow> string" where
  "or_default None d = d"
| "or_default (Some m) d = (if m = [] then d else m)"

text \<open>
  The loop \<open>while (attempts < maxAttempts)\<close>, by the number of attempts that remain; the
  sleep of 30 s between two attempts is not modelled.
\<close>

fun pollRenderCompletion :: "services \<Rightarrow> string \<Rightarrow> nat \<Rightarrow> job \<Rightarrow> job outcome" where
  "pollRenderCompletion sv renderId 0 job = Threw ''Render timed out'' job"
| "pollRenderCompletion sv renderId (Suc remaining) (s, i) =
     (case creatomate_checkRenderStatus sv (length (calls i)) renderId of
        Inl e \<Rightarrow> Threw e (s, log_call (CheckRenderStatus renderId) i)
      | Inr render \<Rightarrow>
          if render_status render = Succeeded \<and> present (render_url render) then
            Returned (saveState (s\<lparr>finalVideoUrl := render_url render, status := Complete,
                                   progress := 100\<rparr>,
                                 log_call (CheckRenderStatus renderId) i))
          else if render_status render = Render_failed then
            Threw (or_default (render_error_message render) ''Render failed'')
                  (s, log_call (CheckRenderStatus renderId) i)
          else
            pollRenderCompletion sv renderId remaining
              (s, log_call (CheckRenderStatus renderId) i))"

text \<open>\<open>.map((s) => s.videoUrl).filter((url) => !!url)\<close>.\<close>

fun video_urls :: "SceneJobState list \<Rightarrow> string list" where
  "video_urls [] = []"
| "video_urls (scene # rest) =
     (case videoUrl scene of
        None \<Rightarrow> video_urls rest
      | Some u \<Rightarrow> if u = [] then video_urls rest else u # video_urls rest)"

text \<open>\<open>Array.prototype.sort\<close> is stable and sorts \<open>this.state.scenes\<close> in place.\<close>

definition compileVideo :: "services \<Rightarrow> job \<Rightarrow> job" where
  "compileVideo sv = (\<lambda>(s, i).
     case saveState (s\<lparr>status := Compiling\<rparr>, i) of (s1, i1) \<Rightarrow>
       let s2 = s1\<lparr>jobScenes := sort_key sceneId (jobScenes s1)\<rparr>;
           videoUrls = video_urls (jobScenes s2)
       in if videoUrls = [] then fail_with ''No videos to compile'' (s2, i1)
          else
            (case creatomate_compileVideo sv (length (calls i1)) videoUrls of
               Inl e \<Rightarrow> fail_with e (s2, log_call (CompileVideo videoUrls) i1)
             | Inr renderId \<Rightarrow>
                 (case pollRenderCompletion sv renderId 60
                         (s2, log_call (CompileVideo videoUrls) i1) of
                    Returned job \<Rightarrow> job
                  | Threw e job \<Rightarrow> fail_with e job)))"

subsection \<open>\<open>alarm\<close>\<close>

fun prepend :: "SceneJobState \<Rightarrow> (SceneJobState list \<times> 'a) outcome
                 \<Rightarrow> (SceneJobState list \<times> 'a) outcome" where
  "prepend scene (Returned (scenes', r)) = Returned (scene # scenes', r)"
| "prepend scene (Threw e (scenes', r)) = Threw e (scene # scenes', r)"

text \<open>
  The loop over \<open>this.state.scenes\<close> of the handler. It returns the scenes as the loop left
  them, with \<open>allComplete\<close> and \<open>anyFailed\<close>. A throw leaves the loop: the scenes changed so
  far stay changed in \<open>this.state\<close>, the two flags are lost.
\<close>

fun poll_scenes ::
  "services \<Rightarrow> SceneJobState list \<Rightarrow> runtime \<times> bool \<times> bool
     \<Rightarrow> (SceneJobState list \<times> runtime \<times> bool \<times> bool) outcome" where
  "poll_scenes sv [] (i, allComplete, anyFailed) = Returned ([], i, allComplete, anyFailed)"
| "poll_scenes sv (sceneState # rest) (i, allComplete, anyFailed) =
     (case videoRequestId sceneState of
        None \<Rightarrow> prepend sceneState (poll_scenes sv rest (i, allComplete, anyFailed))
      | Some requestId \<Rightarrow>
          if sceneStatus sceneState \<noteq> S_polling_video \<or> requestId = [] then
            prepend sceneState (poll_scenes sv rest (i, allComplete, anyFailed))
          else
            (case fal_checkVideoStatus sv (length (calls i)) requestId of
               Inl e \<Rightarrow>
                 Threw e (sceneState # rest, log_call (CheckVideoStatus requestId) i,
                          allComplete, anyFailed)
             | Inr COMPLETED \<Rightarrow>
                 (case fal_getVideoResult sv (Suc (length (calls i))) requestId of
                    Inl e \<Rightarrow>
                      Threw e (sceneState # rest,
                               log_call (GetVideoResult requestId)
                                 (log_call (CheckVideoStatus requestId) i),
                               allComplete, anyFailed)
                  | Inr url \<Rightarrow>
                      prepend (sceneState\<lparr>videoUrl := Some url, sceneStatus := S_complete\<rparr>)
                        (poll_scenes sv rest
                           (log_call (GetVideoResult requestId)
                              (log_call (CheckVideoStatus requestId) i),
                            allComplete, anyFailed)))
             | Inr FAILED \<Rightarrow>
                 prepend (sceneState\<lparr>sceneStatus := S_failed,
                                      sceneError := Some ''Video generation failed''\<rparr>)
                   (poll_scenes sv rest
                      (log_call (CheckVideoStatus requestId) i, allComplete, True))
             | Inr _ \<Rightarrow>
                 prepend sceneState
                   (poll_scenes sv rest
                      (log_call (CheckVideoStatus requestId) i, False, anyFailed))))"

definition loaded :: "job \<Rightarrow> VideoJobState option \<times> runtime" where
  "loaded = (\<lambda>(s, i). (Some s, i))"

definition alarm ::
  "services \<Rightarrow> VideoJobState option \<times> runtime \<Rightarrow> VideoJobState option \<times> runtime" where
  "alarm sv this =
     (case loadState this of
        (None, i) \<Rightarrow> (None, i)
      | (Some s, i) \<Rightarrow>
          if status s = Complete \<or> status s = Failed then (Some s, i)
          else if pollAttempts i + 1 > MAX_POLL_ATTEMPTS then
            loaded (saveState (s\<lparr>status := Failed, error := Some ''Video generation timed out''\<rparr>,
                               i\<lparr>pollAttempts := pollAttempts i + 1\<rparr>))
          else
            (case poll_scenes sv (jobScenes s) (i\<lparr>pollAttempts := pollAttempts i + 1\<rparr>, True, False) of
               Threw e (polled, i', allComplete, anyFailed) \<Rightarrow>
                 (Some (s\<lparr>jobScenes := polled\<rparr>), setAlarm i')
             | Returned (polled, i', allComplete, anyFailed) \<Rightarrow>
                 (case saveState (updateProgress (s\<lparr>jobScenes := polled\<rparr>), i') of (s1, i1) \<Rightarrow>
                    if anyFailed then
                      loaded (saveState
                        (s1\<lparr>status := Failed,
                            error := Some ''One or more videos failed to generate''\<rparr>, i1))
                    else if allComplete then
                      loaded (compileVideo sv (saveState (s1\<lparr>status := Videos_complete\<rparr>, i1)))
                    else (Some s1, setAlarm i1))))"

subsection \<open>\<open>startGeneration\<close>, \<open>generateImages\<close>, \<open>startVideoGeneration\<close>\<close>

text \<open>
  \<open>this.state.scenes.find((s) => s.sceneId === scene.id)\<close> is \<open>List.find\<close>; an assignment to
  a field of the scene state that was found changes the first scene state with that id.
\<close>

fun update_first ::
  "int \<Rightarrow> (SceneJobState \<Rightarrow> SceneJobState) \<Rightarrow> SceneJobState list \<Rightarrow> SceneJobState list" where
  "update_first sid f [] = []"
| "update_first sid f (x # xs) = (if sceneId x = sid then f x # xs else x # update_first sid f xs)"

definition on_scene ::
  "int \<Rightarrow> (SceneJobState \<Rightarrow> SceneJobState) \<Rightarrow> VideoJobState \<Rightarrow> VideoJobState" where
  "on_scene sid f s = s\<lparr>jobScenes := update_first sid f (jobScenes s)\<rparr>"

fun submit_videos :: "services \<Rightarrow> Scene list \<Rightarrow> job \<Rightarrow> job outcome" where
  "submit_videos sv [] job = Returned job"
| "submit_videos sv (scene # rest) (s, i) =
     (case List.find (\<lambda>st. sceneId st = sc_id scene) (jobScenes s) of
        None \<Rightarrow> submit_videos sv rest (s, i)
      | Some sceneState \<Rightarrow>
          (case (startImageUrl sceneState, endImageUrl sceneState) of
             (Some startUrl, Some endUrl) \<Rightarrow>
               if startUrl = [] \<or> endUrl = [] then submit_videos sv rest (s, i)
               else
                 (case fal_submitVideoGeneration sv (length (calls i))
                         (sc_motionPrompt scene) startUrl endUrl of
                    Inl e \<Rightarrow>
                      Threw e
                        (on_scene (sc_id scene) (\<lambda>st. st\<lparr>sceneStatus := S_generating_video\<rparr>) s,
                         log_call (SubmitVideoGeneration (sc_motionPrompt scene) startUrl endUrl) i)
                  | Inr request_id \<Rightarrow>
                      submit_videos sv rest
                        (on_scene (sc_id scene)
                           (\<lambda>st. st\<lparr>videoRequestId := Some request_id,
                                     sceneStatus := S_polling_video\<rparr>) s,
                         log_call (SubmitVideoGeneration (sc_motionPrompt scene) startUrl endUrl) i))
           | _ \<Rightarrow> submit_videos sv rest (s, i)))"

definition startVideoGeneration :: "services \<Rightarrow> Scene list \<Rightarrow> job \<Rightarrow> job" where
  "startVideoGeneration sv scene_list = (\<lambda>(s, i).
     case submit_videos sv scene_list (saveState (s\<lparr>status := Generating_videos\<rparr>, i)) of
       Returned (s1, i1) \<Rightarrow>
         (case saveState (updateProgress s1, i1) of
            (s2, i2) \<Rightarrow> (s2, setAlarm (i2\<lparr>pollAttempts := 0\<rparr>)))
     | Threw e job \<Rightarrow> fail_with e job)"

fun generate_scene_images :: "services \<Rightarrow> Scene list \<Rightarrow> job \<Rightarrow> job outcome" where
  "generate_scene_images sv [] job = Returned job"
| "generate_scene_images sv (scene # rest) (s, i) =
     (if List.find (\<lambda>st. sceneId st = sc_id scene) (jobScenes s) = None then
        generate_scene_images sv rest (s, i)
      else
        (case saveState
                (updateProgress
                   (on_scene (sc_id scene) (\<lambda>st. st\<lparr>sceneStatus := S_generating_start_image\<rparr>) s),
                 i) of
           (s1, i1) \<Rightarrow>
             (case fal_generateImage sv (length (calls i1)) (sc_startPrompt scene) of
                Inl e \<Rightarrow> Threw e (s1, log_call (GenerateImage (sc_startPrompt scene)) i1)
              | Inr startUrl \<Rightarrow>
                  (case saveState
                          (updateProgress
                             (on_scene (sc_id scene)
                                (\<lambda>st. st\<lparr>startImageUrl := Some startUrl,
                                          sceneStatus := S_generating_end_image\<rparr>) s1),
                           log_call (GenerateImage (sc_startPrompt scene)) i1) of
                     (s2, i2) \<Rightarrow>
                       (case fal_generateImage sv (length (calls i2)) (sc_endPrompt scene) of
                          Inl e \<Rightarrow> Threw e (s2, log_call (GenerateImage (sc_endPrompt scene)) i2)
                        | Inr endUrl \<Rightarrow>
                            generate_scene_images sv rest
                              (on_scene (sc_id scene) (\<lambda>st. st\<lparr>endImageUrl := Some endUrl\<rparr>) s2,
                               log_call (GenerateImage (sc_endPrompt scene)) i2))))))"

definition generateImages :: "services \<Rightarrow> Scene list \<Rightarrow> job \<Rightarrow> job" where
  "generateImages sv scene_list job =
     (case generate_scene_images sv scene_list job of
        Returned (s, i) \<Rightarrow>
          startVideoGeneration sv scene_list
            (saveState (updateProgress (s\<lparr>status := Images_complete\<rparr>), i))
      | Threw e job' \<Rightarrow> fail_with e job')"

definition startGeneration ::
  "services \<Rightarrow> Scene list \<Rightarrow> VideoJobState option \<times> runtime
     \<Rightarrow> string + VideoJobState option \<times> runtime" where
  "startGeneration sv scene_list this =
     (case loadState this of
        (None, i) \<Rightarrow> Inl ''Job not initialized''
      | (Some s, i) \<Rightarrow>
          Inr (loaded (generateImages sv scene_list
                         (saveState (s\<lparr>status := Generating_images\<rparr>, i)))))"

subsection \<open>Notions used to state the properties of the job\<close>

text \<open>
  The request that the poll loop of \<open>alarm\<close> asks about for a scene state: none if the loop
  passes the scene by (\<open>continue\<close>). The requests of a list of scene states, in the order
  of the loop.
\<close>

definition polled_request :: "SceneJobState \<Rightarrow> string option" where
  "polled_request sceneState =
     (case videoRequestId sceneState of
        None \<Rightarrow> None
      | Some requestId \<Rightarrow>
          if sceneStatus sceneState \<noteq> S_polling_video \<or> requestId = [] then None
          else Some requestId)"

definition polled_requests :: "SceneJobState list \<Rightarrow> string list" where
  "polled_requests scene_states = List.map_filter polled_request scene_states"

text \<open>
  What the body of the poll loop makes of a scene state when the status of a request \<open>r\<close>
  is \<open>answer r\<close> and its result is \<open>video r\<close>.
\<close>

definition scene_after_poll ::
  "(string \<Rightarrow> queue_status) \<Rightarrow> (string \<Rightarrow> string) \<Rightarrow> SceneJobState \<Rightarrow> SceneJobState" where
  "scene_after_poll answer video sceneState =
     (case polled_request sceneState of
        None \<Rightarrow> sceneState
      | Some requestId \<Rightarrow>
          (case answer requestId of
             COMPLETED \<Rightarrow> sceneState\<lparr>videoUrl := Some (video requestId), sceneStatus := S_complete\<rparr>
           | FAILED \<Rightarrow> sceneState\<lparr>sceneStatus := S_failed,
                                   sceneError := Some ''Video generation failed''\<rparr>
           | _ \<Rightarrow> sceneState))"

text \<open>
  The scenes of a request for which the job holds a scene state; the image loop passes
  the others by.
\<close>

definition addressed :: "VideoJobState \<Rightarrow> Scene list \<Rightarrow> Scene list" where
  "addressed s scene_list =
     filter (\<lambda>scene. List.find (\<lambda>st. sceneId st = sc_id scene) (jobScenes s) \<noteq> None) scene_list"

text \<open>The two image calls that the loop makes for a scene.\<close>

definition image_calls :: "Scene \<Rightarrow> call list" where
  "image_calls scene = [GenerateImage (sc_startPrompt scene), GenerateImage (sc_endPrompt scene)]"

subsection \<open>Concrete jobs and services\<close>

text \<open>The state in which a loop ended, whether it returned or threw.\<close>

fun ended :: "'a outcome \<Rightarrow> 'a" where
  "ended (Returned x) = x"
| "ended (Threw e x) = x"

text \<open>
  Services that answer every call at once and well; a job whose shots wait for their
  videos; an object that has made no call yet, with a given \<open>pollAttempts\<close>.
\<close>

definition services_ok :: services where
  "services_ok =
     \<lparr> fal_generateImage = (\<lambda>n p. Inr (''image of '' @ p)),
       fal_submitVideoGeneration = (\<lambda>n m a b. Inr (''request for '' @ m)),
       fal_checkVideoStatus = (\<lambda>n r. Inr COMPLETED),
       fal_getVideoResult = (\<lambda>n r. Inr (''video of '' @ r)),
       creatomate_compileVideo = (\<lambda>n us. Inr ''render''),
       creatomate_checkRenderStatus =
         (\<lambda>n r. Inr \<lparr> render_status = Succeeded, render_url = Some ''final.mp4'',
                         render_error_message = None \<rparr>),
       settings_compile_provider = Some ''creatomate'' \<rparr>"


definition polling_scene :: "int \<Rightarrow> string \<Rightarrow> SceneJobState" where
  "polling_scene k r =
     \<lparr> sceneId = k, startImageUrl = Some ''start.png'', endImageUrl = Some ''end.png'',
       videoRequestId = Some r, videoUrl = None, sceneStatus = S_polling_video,
       sceneError = None \<rparr>"

definition polling_job :: "SceneJobState list \<Rightarrow> VideoJobState" where
  "polling_job scs =
     \<lparr> jobId = ''job'', projectId = ''project'', status = Generating_videos, jobScenes = scs,
       finalVideoUrl = None, progress = 0, error = None \<rparr>"

definition fresh :: "nat \<Rightarrow> runtime" where
  "fresh n = \<lparr> pollAttempts = n, stored = [], alarmsSet = 0, calls = [] \<rparr>"

definition shot2_fails :: services where
  "shot2_fails = services_ok\<lparr>fal_checkVideoStatus :=
      (\<lambda>n r. Inr (if r = ''r2'' then FAILED else COMPLETED))\<rparr>"

definition three_polling :: VideoJobState where
  "three_polling = polling_job [polling_scene 1 ''r1'', polling_scene 2 ''r2'', polling_scene 3 ''r3'']"

definition three_polled :: "SceneJobState list" where
  "three_polled =
     [(polling_scene 1 ''r1'')\<lparr>videoUrl := Some ''video of r1'', sceneStatus := S_complete\<rparr>,
      (polling_scene 2 ''r2'')\<lparr>sceneStatus := S_failed, sceneError := Some ''Video generation failed''\<rparr>,
      (polling_scene 3 ''r3'')\<lparr>videoUrl := Some ''video of r3'', sceneStatus := S_complete\<rparr>]"

definition three_polled_calls :: "call list" where
  "three_polled_calls =
     [CheckVideoStatus ''r1'', GetVideoResult ''r1'', CheckVideoStatus ''r2'',
      CheckVideoStatus ''r3'', GetVideoResult ''r3'']"

definition sixty_seven :: VideoJobState where
  "sixty_seven = polling_job (map (\<lambda>k. polling_scene (int k) ''r'') [1..<68])"

definition scene_one :: Scene where
  "scene_one = \<lparr> sc_id = 1, sc_name = ''one'', sc_startPrompt = ''s1'', sc_endPrompt = ''e1'',
                 sc_motionPrompt = ''m1'', sc_duration = 5 \<rparr>"

definition scene_two :: Scene where
  "scene_two = \<lparr> sc_id = 2, sc_name = ''two'', sc_startPrompt = ''s2'', sc_endPrompt = ''e2'',
                 sc_motionPrompt = ''m2'', sc_duration = 5 \<rparr>"

definition scene_three :: Scene where
  "scene_three = \<lparr> sc_id = 3, sc_name = ''three'', sc_startPrompt = ''s3'', sc_endPrompt = ''e3'',
                   sc_motionPrompt = ''m3'', sc_duration = 5 \<rparr>"

definition two_scenes :: "Scene list" where
  "two_scenes = [scene_one, scene_two]"

definition first_image_fails :: services where
  "first_image_fails = services_ok\<lparr>fal_generateImage :=
      (\<lambda>n p. if p = ''s1'' then Inl ''Flux API error: 400 - bad prompt''
              else Inr (''image of '' @ p))\<rparr>"

definition pending_scene :: "int \<Rightarrow> SceneJobState" where
  "pending_scene k =
     \<lparr> sceneId = k, startImageUrl = None, endImageUrl = None, videoRequestId = None,
       videoUrl = None, sceneStatus = S_pending, sceneError = None \<rparr>"

definition two_pending :: VideoJobState where
  "two_pending =
     \<lparr> jobId = ''job'', projectId = ''project'', status = Generating_images,
       jobScenes = [pending_scene 1, pending_scene 2],
       finalVideoUrl = None, progress = 0, error = None \<rparr>"

text \<open>
  A job of three shots, and a service that rejects the end prompt of the second and
  answers for every other prompt.
\<close>

definition three_pending :: VideoJobState where
  "three_pending = two_pending\<lparr>jobScenes := [pending_scene 1, pending_scene 2, pending_scene 3]\<rparr>"

definition second_end_fails :: services where
  "second_end_fails = services_ok\<lparr>fal_generateImage :=
      (\<lambda>n p. if p = ''e2'' then Inl ''Flux API error: 400 - bad prompt''
              else Inr (''image of '' @ p))\<rparr>"

definition three_videos :: VideoJobState where
  "three_videos = (polling_job
      [(polling_scene 1 ''r1'')\<lparr>videoUrl := Some ''video of r1'', sceneStatus := S_complete\<rparr>,
       (polling_scene 2 ''r2'')\<lparr>videoUrl := Some ''video of r2'', sceneStatus := S_complete\<rparr>,
       (polling_scene 3 ''r3'')\<lparr>videoUrl := Some ''video of r3'', sceneStatus := S_complete\<rparr>])
     \<lparr>status := Videos_complete\<rparr>"

section \<open>The router: \<open>handleRequest\<close> of the worker\<close>

text \<open>
  The router whose protected routes call \<open>requireAuth\<close> and build their keys from
  \<open>auth.userId\<close>. Its state is the key-value store \<open>env.CACHE\<close> and the namespace
  \<open>env.VIDEO_JOB\<close> of the job objects, which \<open>idFromName(jobId)\<close> addresses by the job id
  alone.
\<close>

record world =
  cache :: "string \<rightharpoonup> string"
  video_jobs :: "string \<rightharpoonup> VideoJobState"

definition project_key :: "string \<Rightarrow> string \<Rightarrow> string" where
  "project_key uid pid = ''user:'' @ uid @ '':project:'' @ pid"

definition job_key :: "string \<Rightarrow> string \<Rightarrow> string" where
  "job_key uid jid = ''user:'' @ uid @ '':job:'' @ jid"

definition current_job_key :: "string \<Rightarrow> string \<Rightarrow> string" where
  "current_job_key uid pid = ''user:'' @ uid @ '':project:'' @ pid @ '':currentJob''"

datatype body = Failure string | JobState "VideoJobState option"

datatype response = Response nat body

text \<open>
  \<open>GET /api/jobs/{id}\<close> for the requester that \<open>getAuthFromRequest\<close> found (\<open>None\<close> without a
  valid token). Besides the response, the handler returns the names of the job objects it
  fetched from. A handler of a \<open>GET\<close> route writes nothing.
\<close>

definition get_job :: "string option \<Rightarrow> string \<Rightarrow> world \<Rightarrow> response \<times> string list" where
  "get_job auth jid w =
     (case auth of
        None \<Rightarrow> (Response 401 (Failure ''Unauthorized''), [])
      | Some uid \<Rightarrow>
          if \<not> present (cache w (job_key uid jid)) then
            (Response 404 (Failure ''Job not found''), [])
          else
            (case video_jobs w jid of
               None \<Rightarrow> (Response 404 (Failure ''Job not found''), [jid])
             | Some state \<Rightarrow> (Response 200 (JobState (Some state)), [jid])))"

text \<open>\<open>GET /api/projects/{id}/job\<close>, which answers with the state it fetched, \<open>null\<close> or not.\<close>

definition get_current_job :: "string option \<Rightarrow> string \<Rightarrow> world \<Rightarrow> response \<times> string list" where
  "get_current_job auth pid w =
     (case auth of
        None \<Rightarrow> (Response 401 (Failure ''Unauthorized''), [])
      | Some uid \<Rightarrow>
          (case cache w (current_job_key uid pid) of
             None \<Rightarrow> (Response 404 (Failure ''No active job for this project''), [])
           | Some jid \<Rightarrow>
               if jid = [] then (Response 404 (Failure ''No active job for this project''), [])
               else (Response 200 (JobState (video_jobs w jid)), [jid])))"

text \<open>
  The routes that write to the store, for an authenticated user. \<open>CreateProject\<close> stands for
  \<open>POST /api/projects\<close> and for the creation from the template: it carries the id that
  \<open>generateId()\<close> returned and the JSON text of the project. \<open>Generate\<close> is
  \<open>POST /api/projects/{id}/generate\<close>: it carries the project id of the path, the job id that
  \<open>generateId()\<close> returned, and the state that the job object reached in \<open>/initialize\<close> and
  \<open>/start\<close>.
\<close>

datatype request =
    CreateProject string string string
  | Generate string string string VideoJobState

text \<open>\<open>JSON.stringify({ projectId, jobId })\<close>; \<open>CHR 0x22\<close> is the double quote.\<close>

definition quoted :: "string \<Rightarrow> string" where
  "quoted s = CHR 0x22 # s @ [CHR 0x22]"

definition job_json :: "string \<Rightarrow> string \<Rightarrow> string" where
  "job_json pid jid =
     ''{'' @ quoted ''projectId'' @ '':'' @ quoted pid @ '','' @ quoted ''jobId'' @ '':''
       @ quoted jid @ ''}''"

fun handle :: "request \<Rightarrow> world \<Rightarrow> world" where
  "handle (CreateProject uid pid project) w =
     w\<lparr>cache := (cache w)(project_key uid pid \<mapsto> project)\<rparr>"
| "handle (Generate uid pid jid state) w =
     (if \<not> present (cache w (project_key uid pid)) then w
      else w\<lparr>video_jobs := (video_jobs w)(jid \<mapsto> state),
             cache := (cache w)(job_key uid jid \<mapsto> job_json pid jid,
                                current_job_key uid pid \<mapsto> jid)\<rparr>)"

definition run :: "request list \<Rightarrow> world" where
  "run requests = foldl (\<lambda>w r. handle r w) \<lparr>cache = Map.empty, video_jobs = Map.empty\<rparr> requests"

text \<open>
  Ids hold no colon: a user id, a project id and a job id come from \<open>crypto.randomUUID()\<close>,
  and an id taken from a path matches \<open>[\w-]+\<close>.
\<close>

definition plain :: "string \<Rightarrow> bool" where
  "plain s = (CHR '':'' \<notin> set s)"

fun well_formed :: "request \<Rightarrow> bool" where
  "well_formed (CreateProject uid pid project) = (plain uid \<and> plain pid)"
| "well_formed (Generate uid pid jid state) =
     (plain uid \<and> plain pid \<and> plain jid)"

text \<open>The job ids that \<open>generateId()\<close> returned, in order.\<close>

fun job_ids :: "request list \<Rightarrow> string list" where
  "job_ids [] = []"
| "job_ids (Generate uid pid jid state # rest) = jid # job_ids rest"
| "job_ids (CreateProject uid pid project # rest) = job_ids rest"

text \<open>The pieces of a key between its colons.\<close>

fun segments :: "string \<Rightarrow> string list" where
  "segments [] = [[]]"
| "segments (c # cs) =
     (if c = CHR '':'' then [] # segments cs
      else (case segments cs of [] \<Rightarrow> [[c]] | t # ts \<Rightarrow> (c # t) # ts))"

text \<open>A store that two requests of one user have written.\<close>

definition bobs_requests :: "request list" where
  "bobs_requests =
     [CreateProject ''bob'' ''p1'' ''{}'', Generate ''bob'' ''p1'' ''j1'' three_polling]"





section \<open>Properties of the normalizer\<close>

lemma rev_dropWhile_rev_Cons:
  "rev (dropWhile P (rev (c # cs))) =
     (if (\<forall>x\<in>set (c # cs). P x) then [] else c # rev (dropWhile P (rev cs)))"
  by (auto simp: dropWhile_append)

lemma dropWhile_trimEnd:
  "xs = [] \<or> \<not> P (hd xs) \<Longrightarrow>
     dropWhile P (rev (dropWhile P (rev xs))) = rev (dropWhile P (rev xs))"
  by (cases xs) (auto simp: dropWhile_append)

lemma dropWhile_trim: "dropWhile is_ws (trim s) = trim s"
  unfolding trim_def
  by (rule dropWhile_trimEnd) (metis hd_dropWhile)

lemma trim_idem: "trim (trim s) = trim s"
proof -
  have "trim (trim s) = rev (dropWhile is_ws (rev (trim s)))"
    by (simp add: trim_def[of "trim s"] dropWhile_trim)
  also have "\<dots> = trim s"
    by (simp add: trim_def)
  finally show ?thesis .
qed

lemma round1_idem: "round1 (round1 x) = round1 x"
proof -
  have "\<lfloor>of_int k + (1 / 2 :: rat)\<rfloor> = k" for k :: int
    by linarith
  then show ?thesis
    by (simp add: round1_def)
qed

lemma or_cut_nonempty: "or_cut t \<noteq> []"
  by (cases t) auto

lemma normalizeShot_idem: "normalizeShot i (normalizeShot i s) = normalizeShot i s"
  by (simp add: normalizeShot_def trim_idem round1_idem or_cut_nonempty option.map_comp comp_def)

lemma map_enumerate_idem:
  assumes "\<And>i x. f i (f i x) = f i x"
  shows "map (\<lambda>(i, x). f i x) (enumerate n (map (\<lambda>(i, x). f i x) (enumerate n xs)))
         = map (\<lambda>(i, x). f i x) (enumerate n xs)"
  by (induction xs arbitrary: n) (simp_all add: assms)

lemma normalizeScene_idem: "normalizeScene i (normalizeScene i s) = normalizeScene i s"
  by (simp add: normalizeScene_def trim_idem
        map_enumerate_idem[of normalizeShot, OF normalizeShot_idem])

text \<open>
  C8. \<open>normalizeDirection\<close> is idempotent: normalizing a direction that has been
  normalized returns it unchanged, for every \<open>VideoDirection\<close>.
\<close>

theorem normalizeDirection_idempotent:
  "normalizeDirection (normalizeDirection x) = normalizeDirection x"
  by (simp add: normalizeDirection_def Let_def trim_idem
        map_enumerate_idem[of normalizeScene, OF normalizeScene_idem])

section \<open>Properties of the validator\<close>

lemma nonempty_string_Some: "nonempty_string v = Some s \<Longrightarrow> v = Some (JStr s) \<and> s \<noteq> []"
  by (cases v rule: nonempty_string.cases) (auto split: if_splits)

lemma nonempty_array_Some: "nonempty_array v = Some xs \<Longrightarrow> v = Some (JArr xs) \<and> xs \<noteq> []"
  by (cases v rule: nonempty_array.cases) (auto split: if_splits)

lemma includes_str_iff: "includes_str xs v \<longleftrightarrow> (\<exists>s. v = Some (JStr s) \<and> s \<in> set xs)"
  by (cases "(xs, v)" rule: includes_str.cases) auto


lemma validateShot_Inr:
  assumes "validateShot sid j shot = Inr v"
  shows "shot_id v = of_nat (j + 1)
    \<and> get_prop shot ''duration'' = Some (JNum (duration v))
    \<and> 5 \<le> duration v \<and> duration v \<le> 10
    \<and> nonempty_string (get_prop shot ''startPrompt'') = Some (startPrompt v)
    \<and> nonempty_string (get_prop shot ''endPrompt'') = Some (endPrompt v)
    \<and> nonempty_string (get_prop shot ''motionPrompt'') = Some (motionPrompt v)
    \<and> 20 \<le> length (split_ws (startPrompt v))
    \<and> 20 \<le> length (split_ws (endPrompt v))
    \<and> get_prop shot ''cameraMove'' = Some (JStr (cameraMove v))
    \<and> includes_str validCameraMoves (get_prop shot ''cameraMove'')
    \<and> transitionOut v = opt_string (get_prop shot ''transitionOut'')
    \<and> \<not> (truthy (get_prop shot ''transitionOut'')
          \<and> \<not> includes_str validTransitions (get_prop shot ''transitionOut''))"
  using assms
  unfolding validateShot_def
  apply (simp split: if_splits option.splits json.splits prod.splits add: includes_str_iff)
  apply (auto simp: not_less)
  done

lemma validateShots_Inr:
  "validateShots sid j acc raws = Inr (acc', vs) \<Longrightarrow>
     length vs = length raws \<and> acc' = foldl dadd acc (map duration vs)
     \<and> (\<forall>k<length raws. validateShot sid (j + k) (raws ! k) = Inr (vs ! k))"
proof (induction raws arbitrary: j acc acc' vs)
  case Nil
  then show ?case by simp
next
  case (Cons shot rest)
  from Cons.prems obtain v acc1 vs1 where
    v: "validateShot sid j shot = Inr v" and
    r: "validateShots sid (Suc j) (dadd acc (duration v)) rest = Inr (acc1, vs1)" and
    e: "acc' = acc1" "vs = v # vs1"
    by (auto split: sum.splits prod.splits)
  from Cons.IH[OF r] v e show ?case
    by (auto simp: less_Suc_eq_0_disj)
qed

lemma validateScene_Inr:
  assumes "validateScene input i acc scene = Inr (acc', v)"
  shows "scene_id v = of_nat (i + 1) \<and>
    (\<exists>raw_shots. nonempty_array (get_prop scene ''shots'') = Some raw_shots
       \<and> \<not> exceeds (maxShotsPerScene input) (length raw_shots)
       \<and> validateShots (get_prop scene ''id'') 0 acc raw_shots = Inr (acc', shots v))"
  using assms unfolding validateScene_def
  apply (simp split: if_splits option.splits sum.splits prod.splits)
  apply auto
  done

lemma validateScenes_Inr:
  "validateScenes input i acc raws = Inr (acc', vs) \<Longrightarrow>
     length vs = length raws
     \<and> acc' = foldl dadd acc (concat (map (\<lambda>sc. map duration (shots sc)) vs))
     \<and> (\<forall>k<length raws. \<exists>a a'. validateScene input (i + k) a (raws ! k) = Inr (a', vs ! k))"
proof (induction raws arbitrary: i acc acc' vs)
  case Nil
  then show ?case by simp
next
  case (Cons scene rest)
  from Cons.prems obtain v acc1 acc2 vs1 where
    v: "validateScene input i acc scene = Inr (acc1, v)" and
    r: "validateScenes input (Suc i) acc1 rest = Inr (acc2, vs1)" and
    e: "acc' = acc2" "vs = v # vs1"
    by (auto split: sum.splits prod.splits)
  from validateScene_Inr[OF v] obtain raw_shots where
    "validateShots (get_prop scene ''id'') 0 acc raw_shots = Inr (acc1, shots v)"
    by blast
  then have a1: "acc1 = foldl dadd acc (map duration (shots v))"
    using validateShots_Inr by blast
  have "\<exists>a a'. validateScene input (i + k) a ((scene # rest) ! k) = Inr (a', (v # vs1) ! k)"
    if "k < Suc (length rest)" for k
  proof (cases k)
    case 0
    with v show ?thesis by auto
  next
    case (Suc k')
    with that Cons.IH[OF r] show ?thesis by auto
  qed
  with Cons.IH[OF r] a1 e show ?case
    by simp
qed

lemma validateDirection_Inr:
  assumes "validateDirection direction input = Inr v"
  shows "nonempty_string (get_prop direction ''title'') = Some (title v)
    \<and> nonempty_string (get_prop direction ''narrative'') = Some (narrative v)
    \<and> (\<exists>raw_scenes. nonempty_array (get_prop direction ''scenes'') = Some raw_scenes
         \<and> \<not> exceeds (maxScenes input) (length raw_scenes)
         \<and> validateScenes input 0 0 raw_scenes = Inr (totalDuration v, scenes v))
    \<and> \<not> totalDuration v < dsub (targetDuration input) (dmul (targetDuration input) tenth)
    \<and> \<not> dadd (targetDuration input) (dmul (targetDuration input) tenth) < totalDuration v"
  using assms unfolding validateDirection_def
  apply (simp split: if_splits option.splits sum.splits prod.splits add: Let_def)
  apply (auto simp: not_less)
  done









lemma map_enumerate_snd: "map (\<lambda>(i, x). h x) (enumerate n xs) = map h xs"
  by (induction xs arbitrary: n) simp_all



lemma scenes_normalized:
  "scenes (normalizeDirection v) = map (\<lambda>(i, sc). normalizeScene i sc) (enumerate 0 (scenes v))"
  by (simp add: normalizeDirection_def Let_def)













lemma validateScene_maxScenes:
  "validateScene (input\<lparr>maxScenes := m\<rparr>) i acc scene = validateScene input i acc scene"
  by (simp add: validateScene_def cong: option.case_cong if_cong)

lemma validateScenes_maxScenes:
  "validateScenes (input\<lparr>maxScenes := m\<rparr>) i acc raws = validateScenes input i acc raws"
  by (induction raws arbitrary: i acc)
     (simp_all add: validateScene_maxScenes cong: sum.case_cong prod.case_cong)

lemma validateDirection_capped:
  "validateDirection raw (input\<lparr>maxScenes := m\<rparr>) = Inr v \<longleftrightarrow>
     validateDirection raw (input\<lparr>maxScenes := None\<rparr>) = Inr v \<and> \<not> exceeds m (length (scenes v))"
proof -
  have len: "length b = length raws"
    if "validateScenes input 0 0 raws = Inr (a, b)" for raws a b
    using validateScenes_Inr[OF that] by simp
  show ?thesis
    unfolding validateDirection_def
    by (auto simp: validateScenes_maxScenes Let_def dest: len
          split: if_splits option.splits sum.splits prod.splits)
qed

lemma validateDirection_too_many:
  assumes "exceeds (maxScenes input) (length (elements (get_prop raw ''scenes'')))"
  shows "\<exists>f. validateDirection raw input = Inl (ValidationError f None None)"
proof -
  have "nonempty_array (get_prop raw ''scenes'') = Some xs \<Longrightarrow> elements (get_prop raw ''scenes'') = xs" for xs
    by (auto dest: nonempty_array_Some)
  with assms show ?thesis
    unfolding validateDirection_def
    by (auto split: option.splits)
qed

lemma parseDirection_Inr:
  "parseDirection raw input = Inr plan \<longleftrightarrow>
     (\<exists>w. validateDirection raw input = Inr w \<and> \<not> palette_throws raw \<and> plan = normalizeDirection w)"
  by (auto simp: parseDirection_def split: sum.splits)

text \<open>
  C10. \<open>refine\<close> validates the reply against the prior plan: the target of the
  \<open>\<plusminus>10%\<close> window is the prior \<open>totalDuration\<close>, there is no cap on the shots of a
  scene, and the only cap is on the number of scenes, the prior number plus 2. So
  \<open>refine\<close> accepts a reply exactly when \<open>parseDirection\<close> accepts it with that target
  and no cap at all and the plan has at most two scenes more than the prior one; a reply
  with more scenes is rejected with the rethrown validation error.
\<close>

theorem refine_scene_cap:
  "(refine direction (Inr raw) = Inr plan \<longleftrightarrow>
      parseDirection raw \<lparr> targetDuration = totalDuration direction, aspectRatio = ''16:9'',
                            maxScenes = None, maxShotsPerScene = None \<rparr> = Inr plan
      \<and> length (scenes plan) \<le> length (scenes direction) + 2)
   \<and> (length (scenes direction) + 2 < length (elements (get_prop raw ''scenes'')) \<longrightarrow>
      refine direction (Inr raw) = Inl (PlainError ''Refined direction validation failed''))"
proof -
  let ?capped = "refine_input direction"
  let ?free = "\<lparr> targetDuration = totalDuration direction, aspectRatio = ''16:9'',
                  maxScenes = None, maxShotsPerScene = None \<rparr>"
  have c: "?capped = ?free\<lparr>maxScenes := Some (of_nat (length (scenes direction) + 2))\<rparr>"
    and f: "?free = ?free\<lparr>maxScenes := None\<rparr>"
    by (simp_all add: refine_input_def)
  have ex: "exceeds (Some (rat_of_nat (length (scenes direction) + 2))) n
            \<longleftrightarrow> length (scenes direction) + 2 < n" for n
  proof -
    have "rat_of_nat (length (scenes direction) + 2) < rat_of_nat n \<longleftrightarrow> length (scenes direction) + 2 < n"
      by (rule of_nat_less_iff)
    moreover have "rat_of_nat (length (scenes direction) + 2) \<noteq> 0"
      by simp
    ultimately show ?thesis by simp
  qed
  have v: "validateDirection raw ?capped = Inr w \<longleftrightarrow>
           validateDirection raw ?free = Inr w \<and> length (scenes w) \<le> length (scenes direction) + 2" for w
    using validateDirection_capped[where raw = raw and input = ?free and v = w
            and m = "Some (of_nat (length (scenes direction) + 2))"]
    unfolding c[symmetric] f[symmetric] ex by auto
  have l: "length (scenes (normalizeDirection w)) = length (scenes w)" for w
    by (simp add: scenes_normalized)
  have "refine direction (Inr raw) = Inr plan \<longleftrightarrow> parseDirection raw ?capped = Inr plan"
    by (simp add: refine_def split: sum.splits)
  also have "\<dots> \<longleftrightarrow> parseDirection raw ?free = Inr plan
                 \<and> length (scenes plan) \<le> length (scenes direction) + 2"
    unfolding parseDirection_Inr v
    using l by auto
  finally have first: "refine direction (Inr raw) = Inr plan \<longleftrightarrow>
      parseDirection raw ?free = Inr plan \<and> length (scenes plan) \<le> length (scenes direction) + 2" .
  have second: "refine direction (Inr raw) = Inl (PlainError ''Refined direction validation failed'')"
    if "length (scenes direction) + 2 < length (elements (get_prop raw ''scenes''))"
  proof -
    from that have "exceeds (maxScenes ?capped) (length (elements (get_prop raw ''scenes'')))"
      unfolding ex[symmetric] by (simp add: refine_input_def)
    from validateDirection_too_many[OF this] show ?thesis
      by (auto simp: refine_def parseDirection_def)
  qed
  from first second show ?thesis by blast
qed



text \<open>
  C4, as stated, fails on this direction: its only shot has the one-word \<open>motionPrompt\<close>
  \<open>pan\<close>, and \<open>validateDirection\<close> returns the validated direction.
\<close>

theorem validateDirection_brief_motionPrompt_accepted:
  "validateDirection (example_direction [example_scene 1 (example_shot 5 words20 ''pan'')])
              (example_input 5)
      = Inr \<lparr> title = ''T'', narrative = ''N'', totalDuration = 5,
              scenes = [\<lparr> scene_id = 1, name = ''n'', description = ''d'', mood = ''m'',
                shots = [\<lparr> shot_id = 1, duration = 5, startPrompt = words20, endPrompt = words20,
                           motionPrompt = ''pan'', cameraMove = ''static'', lighting = ''soft'',
                           colorPalette = None, transitionIn = None, transitionOut = None \<rparr>] \<rparr>] \<rparr>
     \<and> length (split_ws ''pan'') = 1"
  by code_simp

lemma raw_shot_validated:
  assumes v: "validateDirection raw input = Inr v"
    and sc: "scene \<in> set (elements (get_prop raw ''scenes''))"
    and sh: "shot \<in> set (elements (get_prop scene ''shots''))"
  shows "\<exists>sid j s. validateShot sid j shot = Inr s"
proof -
  from validateDirection_Inr[OF v] obtain raw_scenes where
    rs: "nonempty_array (get_prop raw ''scenes'') = Some raw_scenes" and
    "validateScenes input 0 0 raw_scenes = Inr (totalDuration v, scenes v)"
    by blast
  note vs = validateScenes_Inr[OF this(2)]
  from rs sc have "scene \<in> set raw_scenes"
    by (auto dest: nonempty_array_Some)
  then obtain k where k: "k < length raw_scenes" "raw_scenes ! k = scene"
    by (auto simp: in_set_conv_nth)
  with vs obtain a a' where "validateScene input (0 + k) a scene = Inr (a', scenes v ! k)"
    by metis
  from validateScene_Inr[OF this] obtain raw_shots where
    rsh: "nonempty_array (get_prop scene ''shots'') = Some raw_shots" and
    "validateShots (get_prop scene ''id'') 0 a raw_shots = Inr (a', shots (scenes v ! k))"
    by blast
  note vsh = validateShots_Inr[OF this(2)]
  from rsh sh have "shot \<in> set raw_shots"
    by (auto dest: nonempty_array_Some)
  then obtain j where "j < length raw_shots" "raw_shots ! j = shot"
    by (auto simp: in_set_conv_nth)
  with vsh show ?thesis
    by metis
qed

text \<open>
  C4, as amended. \<open>validateDirection\<close> throws on every direction that contains a shot
  whose \<open>startPrompt\<close> or \<open>endPrompt\<close> has fewer than 20 pieces under \<open>split(/\s+/)\<close>, or
  whose \<open>motionPrompt\<close> is not a string with at least one character. A \<open>motionPrompt\<close>
  has no minimum number of tokens.
\<close>

theorem validateDirection_rejects_brief_prompts:
  assumes "scene \<in> set (elements (get_prop raw ''scenes''))"
    and "shot \<in> set (elements (get_prop scene ''shots''))"
    and "(\<exists>s. get_prop shot ''startPrompt'' = Some (JStr s) \<and> length (split_ws s) < 20)
       \<or> (\<exists>s. get_prop shot ''endPrompt'' = Some (JStr s) \<and> length (split_ws s) < 20)
       \<or> nonempty_string (get_prop shot ''motionPrompt'') = None"
  shows "\<exists>e. validateDirection raw input = Inl e"
proof (cases "validateDirection raw input")
  case (Inl e)
  then show ?thesis by blast
next
  case (Inr v)
  from raw_shot_validated[OF Inr assms(1,2)] obtain sid j s where
    "validateShot sid j shot = Inr s"
    by blast
  from validateShot_Inr[OF this] have
    "get_prop shot ''startPrompt'' = Some (JStr (startPrompt s))"
    "get_prop shot ''endPrompt'' = Some (JStr (endPrompt s))"
    "20 \<le> length (split_ws (startPrompt s))"
    "20 \<le> length (split_ws (endPrompt s))"
    "nonempty_string (get_prop shot ''motionPrompt'') \<noteq> None"
    by (auto dest: nonempty_string_Some)
  with assms(3) show ?thesis
    by auto
qed

theorem validateDirection_rejects_brief_prompts_witness:
  "example_scene 1 (example_shot 5 ''too brief'' ''pan'')
      \<in> set (elements (get_prop (example_direction [example_scene 1 (example_shot 5 ''too brief'' ''pan'')]) ''scenes''))
   \<and> example_shot 5 ''too brief'' ''pan''
      \<in> set (elements (get_prop (example_scene 1 (example_shot 5 ''too brief'' ''pan'')) ''shots''))
   \<and> get_prop (example_shot 5 ''too brief'' ''pan'') ''startPrompt'' = Some (JStr ''too brief'')
   \<and> length (split_ws ''too brief'') < 20
   \<and> (\<exists>e. validateDirection (example_direction [example_scene 1 (example_shot 5 ''too brief'' ''pan'')])
              (example_input 5) = Inl e)"
proof -
  have 1: "example_scene 1 (example_shot 5 ''too brief'' ''pan'')
      \<in> set (elements (get_prop (example_direction [example_scene 1 (example_shot 5 ''too brief'' ''pan'')]) ''scenes''))"
    by (simp add: example_direction_def)
  have 2: "example_shot 5 ''too brief'' ''pan''
      \<in> set (elements (get_prop (example_scene 1 (example_shot 5 ''too brief'' ''pan'')) ''shots''))"
    by (simp add: example_scene_def)
  have 3: "get_prop (example_shot 5 ''too brief'' ''pan'') ''startPrompt'' = Some (JStr ''too brief'')"
    by (simp add: example_shot_def)
  have 4: "length (split_ws ''too brief'') < 20"
    by code_simp
  from 3 4 have 5: "(\<exists>s. get_prop (example_shot 5 ''too brief'' ''pan'') ''startPrompt'' = Some (JStr s) \<and> length (split_ws s) < 20)
       \<or> (\<exists>s. get_prop (example_shot 5 ''too brief'' ''pan'') ''endPrompt'' = Some (JStr s) \<and> length (split_ws s) < 20)
       \<or> nonempty_string (get_prop (example_shot 5 ''too brief'' ''pan'') ''motionPrompt'') = None"
    by blast
  from validateDirection_rejects_brief_prompts[OF 1 2 5, of "example_input 5"] 1 2 3 4
  show ?thesis by blast
qed


theorem refine_scene_cap_witness:
  "parseDirection (example_direction three_scenes)
      \<lparr> targetDuration = totalDuration prior_plan, aspectRatio = ''16:9'',
        maxScenes = None, maxShotsPerScene = None \<rparr> = Inr three_scene_plan
   \<and> length (scenes three_scene_plan) \<le> length (scenes prior_plan) + 2
   \<and> refine prior_plan (Inr (example_direction three_scenes)) = Inr three_scene_plan
   \<and> length (scenes prior_plan) + 2 < length (elements (get_prop (example_direction four_scenes) ''scenes''))
   \<and> refine prior_plan (Inr (example_direction four_scenes))
       = Inl (PlainError ''Refined direction validation failed'')"
proof -
  have 1: "parseDirection (example_direction three_scenes)
      \<lparr> targetDuration = totalDuration prior_plan, aspectRatio = ''16:9'',
        maxScenes = None, maxShotsPerScene = None \<rparr> = Inr three_scene_plan"
    by code_simp
  have 2: "length (scenes three_scene_plan) \<le> length (scenes prior_plan) + 2"
    by code_simp
  have 3: "length (scenes prior_plan) + 2 < length (elements (get_prop (example_direction four_scenes) ''scenes''))"
    by code_simp
  from refine_scene_cap[where direction = prior_plan and raw = "example_direction three_scenes"
         and plan = three_scene_plan] 1 2
  have 4: "refine prior_plan (Inr (example_direction three_scenes)) = Inr three_scene_plan"
    by blast
  from refine_scene_cap[where direction = prior_plan and raw = "example_direction four_scenes"
         and plan = three_scene_plan] 3
  have 5: "refine prior_plan (Inr (example_direction four_scenes))
       = Inl (PlainError ''Refined direction validation failed'')"
    by blast
  from 1 2 3 4 5 show ?thesis by blast
qed

section \<open>Properties of the job\<close>

lemma saveState_pair [simp]: "saveState (s, i) = (s, i\<lparr>stored := stored i @ [row_of s]\<rparr>)"
  by (simp add: saveState_def)

lemma fail_with_pair [simp]:
  "fail_with e (s, i) = (s\<lparr>status := Failed, error := Some e\<rparr>,
                         i\<lparr>stored := stored i @ [row_of (s\<lparr>status := Failed, error := Some e\<rparr>)]\<rparr>)"
  by (simp add: fail_with_def)

lemma loaded_pair [simp]: "loaded (s, i) = (Some s, i)"
  by (simp add: loaded_def)

lemma loadState_Some [simp]: "loadState (Some s, i) = (Some s, i)"
  by (simp add: loadState_def)

text \<open>
  C6, as amended. Once the incremented \<open>pollAttempts\<close> exceeds 40 at an alarm of a job that
  is neither complete nor failed (whatever the sub-states of its shots), the job
  transitions to \<open>Failed\<close> with the message \<open>Video generation timed out\<close>; that alarm issues
  no external call and arms no alarm, and every later alarm leaves the object as it is.
\<close>

theorem alarm_poll_timeout:
  assumes "pollAttempts i + 1 > MAX_POLL_ATTEMPTS"
    and "status s \<noteq> Complete" and "status s \<noteq> Failed"
  shows "alarm sv (Some s, i) =
           (Some (s\<lparr>status := Failed, error := Some ''Video generation timed out''\<rparr>),
            i\<lparr>pollAttempts := pollAttempts i + 1,
              stored := stored i @ [row_of (s\<lparr>status := Failed,
                                               error := Some ''Video generation timed out''\<rparr>)]\<rparr>)
       \<and> calls (snd (alarm sv (Some s, i))) = calls i
       \<and> alarmsSet (snd (alarm sv (Some s, i))) = alarmsSet i
       \<and> alarm sv' (alarm sv (Some s, i)) = alarm sv (Some s, i)"
proof -
  have 1: "alarm sv (Some s, i) =
           (Some (s\<lparr>status := Failed, error := Some ''Video generation timed out''\<rparr>),
            i\<lparr>pollAttempts := pollAttempts i + 1,
              stored := stored i @ [row_of (s\<lparr>status := Failed,
                                               error := Some ''Video generation timed out''\<rparr>)]\<rparr>)"
    using assms by (simp add: alarm_def)
  have 2: "alarm sv' (Some (s\<lparr>status := Failed, error := e\<rparr>), j) = (Some (s\<lparr>status := Failed, error := e\<rparr>), j)" for e j
    by (simp add: alarm_def)
  show ?thesis
    unfolding 1 by (simp add: 2)
qed

lemma status_row_of [simp]: "status (row_of s) = status s"
  by (simp add: row_of_def)

lemma updateProgress_fields [simp]:
  "status (updateProgress s) = status s"
  "jobScenes (updateProgress s) = jobScenes s"
  "finalVideoUrl (updateProgress s) = finalVideoUrl s"
  "error (updateProgress s) = error s"
  by (simp_all add: updateProgress_def Let_def)

lemma pollRender_Returned:
  "pollRenderCompletion sv r n (s, i) = Returned (s', i') \<Longrightarrow>
     \<exists>k render.
        creatomate_checkRenderStatus sv (length (calls i) + k) r = Inr render
        \<and> render_status render = Succeeded \<and> present (render_url render)
        \<and> s' = s\<lparr>finalVideoUrl := render_url render, status := Complete, progress := 100\<rparr>
        \<and> calls i' = calls i @ replicate (Suc k) (CheckRenderStatus r)
        \<and> stored i' = stored i @ [row_of s']"
proof (induction n arbitrary: i)
  case 0
  then show ?case by simp
next
  case (Suc n)
  show ?case
  proof (cases "creatomate_checkRenderStatus sv (length (calls i)) r")
    case (Inl e)
    with Suc.prems show ?thesis by simp
  next
    case (Inr render)
    show ?thesis
    proof (cases "render_status render = Succeeded \<and> present (render_url render)")
      case True
      with Suc.prems Inr have
        "s' = s\<lparr>finalVideoUrl := render_url render, status := Complete, progress := 100\<rparr>"
        "calls i' = calls i @ replicate (Suc 0) (CheckRenderStatus r)"
        "stored i' = stored i @ [row_of s']"
        by (auto simp: log_call_def)
      with Inr True show ?thesis
        by (intro exI[of _ 0] exI[of _ render]) simp
    next
      case False
      with Suc.prems Inr have
        "pollRenderCompletion sv r n (s, log_call (CheckRenderStatus r) i) = Returned (s', i')"
        by (auto split: if_splits)
      from Suc.IH[OF this] obtain k render' where
        "creatomate_checkRenderStatus sv (length (calls i) + Suc k) r = Inr render'"
        "render_status render' = Succeeded" "present (render_url render')"
        "s' = s\<lparr>finalVideoUrl := render_url render', status := Complete, progress := 100\<rparr>"
        "calls i' = calls i @ replicate (Suc (Suc k)) (CheckRenderStatus r)"
        "stored i' = stored i @ [row_of s']"
        by (auto simp: log_call_def)
      then show ?thesis
        by blast
    qed
  qed
qed

lemma pollRender_Threw:
  "pollRenderCompletion sv r n (s, i) = Threw e (s', i') \<Longrightarrow>
     s' = s \<and> stored i' = stored i \<and> (\<exists>cs. calls i' = calls i @ cs)"
proof (induction n arbitrary: i)
  case 0
  then show ?case by simp
next
  case (Suc n)
  show ?case
  proof (cases "creatomate_checkRenderStatus sv (length (calls i)) r")
    case (Inl e')
    with Suc.prems show ?thesis by (auto simp: log_call_def)
  next
    case (Inr render)
    show ?thesis
    proof (cases "render_status render = Succeeded \<and> present (render_url render)")
      case True
      with Suc.prems Inr show ?thesis
        by auto
    next
      case False
      note nf = this
      show ?thesis
      proof (cases "render_status render = Render_failed")
        case True
        with Suc.prems Inr nf show ?thesis
          by (auto simp: log_call_def)
      next
        case False
        with Suc.prems Inr nf have
          "pollRenderCompletion sv r n (s, log_call (CheckRenderStatus r) i) = Threw e (s', i')"
          by auto
        from Suc.IH[OF this] show ?thesis
          by (auto simp: log_call_def)
      qed
    qed
  qed
qed

lemma compileVideo_result:
  assumes "compileVideo sv (s, i) = (s', i')"
  shows "(\<exists>rows. stored i' = stored i @ row_of (s\<lparr>status := Compiling\<rparr>) # rows)
     \<and> (status s' = Complete \<or> status s' = Failed)
     \<and> (status s' = Complete \<longrightarrow>
           (\<exists>renderId k render.
              creatomate_compileVideo sv (length (calls i))
                  (video_urls (sort_key sceneId (jobScenes s))) = Inr renderId
              \<and> creatomate_checkRenderStatus sv (Suc (length (calls i)) + k) renderId = Inr render
              \<and> render_status render = Succeeded \<and> present (render_url render)
              \<and> finalVideoUrl s' = render_url render \<and> progress s' = 100
              \<and> calls i' = calls i @ CompileVideo (video_urls (sort_key sceneId (jobScenes s)))
                                     # replicate (Suc k) (CheckRenderStatus renderId)))"
proof -
  let ?s2 = "s\<lparr>status := Compiling, jobScenes := sort_key sceneId (jobScenes s)\<rparr>"
  let ?i1 = "i\<lparr>stored := stored i @ [row_of (s\<lparr>status := Compiling\<rparr>)]\<rparr>"
  let ?urls = "video_urls (sort_key sceneId (jobScenes s))"
  show ?thesis
  proof (cases "?urls = []")
    case True
    with assms show ?thesis
      by (auto simp: compileVideo_def Let_def)
  next
    case False
    note ne = this
    show ?thesis
    proof (cases "creatomate_compileVideo sv (length (calls i)) ?urls")
      case (Inl e)
      with assms ne show ?thesis
        by (auto simp: compileVideo_def Let_def log_call_def)
    next
      case (Inr renderId)
      show ?thesis
      proof (cases "pollRenderCompletion sv renderId 60 (?s2, log_call (CompileVideo ?urls) ?i1)")
        case (Returned job)
        with assms ne Inr have "job = (s', i')"
          by (simp add: compileVideo_def Let_def)
        with Returned pollRender_Returned[of sv renderId 60 ?s2 "log_call (CompileVideo ?urls) ?i1" s' i']
        obtain k render where
          "creatomate_checkRenderStatus sv (Suc (length (calls i)) + k) renderId = Inr render"
          "render_status render = Succeeded" "present (render_url render)"
          "s' = ?s2\<lparr>finalVideoUrl := render_url render, status := Complete, progress := 100\<rparr>"
          "calls i' = calls i @ CompileVideo ?urls # replicate (Suc k) (CheckRenderStatus renderId)"
          "stored i' = stored i @ [row_of (s\<lparr>status := Compiling\<rparr>), row_of s']"
          by (auto simp: log_call_def)
        with Inr show ?thesis
          by auto
      next
        case (Threw e job)
        obtain s3 i3 where job: "job = (s3, i3)" by (cases job)
        with assms ne Inr Threw have
          "s' = s3\<lparr>status := Failed, error := Some e\<rparr>"
          "i' = i3\<lparr>stored := stored i3 @ [row_of (s3\<lparr>status := Failed, error := Some e\<rparr>)]\<rparr>"
          by (auto simp: compileVideo_def Let_def)
        with Threw job pollRender_Threw[of sv renderId 60 ?s2 "log_call (CompileVideo ?urls) ?i1" e s3 i3]
        show ?thesis
          by (auto simp: log_call_def)
      qed
    qed
  qed
qed





lemma poll_scenes_skip:
  "polled_request sc = None \<Longrightarrow>
     poll_scenes sv (sc # rest) (i, a, f) = prepend sc (poll_scenes sv rest (i, a, f))"
  by (auto simp: polled_request_def split: option.splits if_splits)

lemma poll_scenes_step:
  assumes "polled_request sc = Some r"
    and "fal_checkVideoStatus sv = (\<lambda>n r. Inr (answer r))"
    and "fal_getVideoResult sv = (\<lambda>n r. Inr (video r))"
  shows "poll_scenes sv (sc # rest) (i, a, f) =
     (case answer r of
        COMPLETED \<Rightarrow>
          prepend (sc\<lparr>videoUrl := Some (video r), sceneStatus := S_complete\<rparr>)
            (poll_scenes sv rest
               (i\<lparr>calls := calls i @ [CheckVideoStatus r, GetVideoResult r]\<rparr>, a, f))
      | FAILED \<Rightarrow>
          prepend (sc\<lparr>sceneStatus := S_failed, sceneError := Some ''Video generation failed''\<rparr>)
            (poll_scenes sv rest (i\<lparr>calls := calls i @ [CheckVideoStatus r]\<rparr>, a, True))
      | _ \<Rightarrow>
          prepend sc (poll_scenes sv rest (i\<lparr>calls := calls i @ [CheckVideoStatus r]\<rparr>, False, f)))"
proof -
  from assms(1) have "videoRequestId sc = Some r" "sceneStatus sc = S_polling_video" "r \<noteq> []"
    by (auto simp: polled_request_def split: option.splits if_splits)
  then show ?thesis
    by (cases "answer r") (simp_all add: assms(2,3) log_call_def)
qed

lemma poll_scenes_answers:
  assumes c: "fal_checkVideoStatus sv = (\<lambda>n r. Inr (answer r))"
    and g: "fal_getVideoResult sv = (\<lambda>n r. Inr (video r))"
  shows "\<exists>cs. poll_scenes sv scs (i, a, f) =
     Returned (map (scene_after_poll answer video) scs, i\<lparr>calls := calls i @ cs\<rparr>,
               a \<and> answer ` set (polled_requests scs) \<subseteq> {COMPLETED, FAILED},
               f \<or> FAILED \<in> answer ` set (polled_requests scs))"
proof (induction scs arbitrary: i a f)
  case Nil
  have "poll_scenes sv [] (i, a, f) = Returned ([], i\<lparr>calls := calls i @ []\<rparr>, a, f)"
    by simp
  then show ?case
    by (auto simp: polled_requests_def List.map_filter_simps simp del: append_Nil2 intro!: exI[of _ "[]"])
next
  case (Cons sc rest)
  show ?case
  proof (cases "polled_request sc")
    case None
    from Cons.IH[of i a f] obtain cs where
      "poll_scenes sv rest (i, a, f) =
         Returned (map (scene_after_poll answer video) rest, i\<lparr>calls := calls i @ cs\<rparr>,
               a \<and> answer ` set (polled_requests rest) \<subseteq> {COMPLETED, FAILED},
               f \<or> FAILED \<in> answer ` set (polled_requests rest))"
      by blast
    with None have "poll_scenes sv (sc # rest) (i, a, f) =
         Returned (map (scene_after_poll answer video) (sc # rest), i\<lparr>calls := calls i @ cs\<rparr>,
               a \<and> answer ` set (polled_requests (sc # rest)) \<subseteq> {COMPLETED, FAILED},
               f \<or> FAILED \<in> answer ` set (polled_requests (sc # rest)))"
      by (simp add: poll_scenes_skip scene_after_poll_def polled_requests_def List.map_filter_simps
            del: poll_scenes.simps)
    then show ?thesis ..
  next
    case (Some r)
    note step = poll_scenes_step[OF Some c g, of rest i a f]
    show ?thesis
    proof (cases "answer r")
      case COMPLETED
      from Cons.IH[of "i\<lparr>calls := calls i @ [CheckVideoStatus r, GetVideoResult r]\<rparr>" a f]
      obtain cs where
        "poll_scenes sv rest (i\<lparr>calls := calls i @ [CheckVideoStatus r, GetVideoResult r]\<rparr>, a, f) =
           Returned (map (scene_after_poll answer video) rest,
               i\<lparr>calls := calls i @ [CheckVideoStatus r, GetVideoResult r] @ cs\<rparr>,
               a \<and> answer ` set (polled_requests rest) \<subseteq> {COMPLETED, FAILED},
               f \<or> FAILED \<in> answer ` set (polled_requests rest))"
        by auto
      with Some COMPLETED have "poll_scenes sv (sc # rest) (i, a, f) =
         Returned (map (scene_after_poll answer video) (sc # rest),
               i\<lparr>calls := calls i @ [CheckVideoStatus r, GetVideoResult r] @ cs\<rparr>,
               a \<and> answer ` set (polled_requests (sc # rest)) \<subseteq> {COMPLETED, FAILED},
               f \<or> FAILED \<in> answer ` set (polled_requests (sc # rest)))"
        unfolding step
        by (simp add: scene_after_poll_def polled_requests_def List.map_filter_simps)
      then show ?thesis ..
    next
      case FAILED
      from Cons.IH[of "i\<lparr>calls := calls i @ [CheckVideoStatus r]\<rparr>" a True]
      obtain cs where
        "poll_scenes sv rest (i\<lparr>calls := calls i @ [CheckVideoStatus r]\<rparr>, a, True) =
           Returned (map (scene_after_poll answer video) rest,
               i\<lparr>calls := calls i @ [CheckVideoStatus r] @ cs\<rparr>,
               a \<and> answer ` set (polled_requests rest) \<subseteq> {COMPLETED, FAILED},
               True)"
        by auto
      with Some FAILED have "poll_scenes sv (sc # rest) (i, a, f) =
         Returned (map (scene_after_poll answer video) (sc # rest),
               i\<lparr>calls := calls i @ [CheckVideoStatus r] @ cs\<rparr>,
               a \<and> answer ` set (polled_requests (sc # rest)) \<subseteq> {COMPLETED, FAILED},
               f \<or> FAILED \<in> answer ` set (polled_requests (sc # rest)))"
        unfolding step
        by (simp add: scene_after_poll_def polled_requests_def List.map_filter_simps)
      then show ?thesis ..
    next
      case IN_QUEUE
      from Cons.IH[of "i\<lparr>calls := calls i @ [CheckVideoStatus r]\<rparr>" False f]
      obtain cs where
        "poll_scenes sv rest (i\<lparr>calls := calls i @ [CheckVideoStatus r]\<rparr>, False, f) =
           Returned (map (scene_after_poll answer video) rest,
               i\<lparr>calls := calls i @ [CheckVideoStatus r] @ cs\<rparr>,
               False,
               f \<or> FAILED \<in> answer ` set (polled_requests rest))"
        by auto
      with Some IN_QUEUE have "poll_scenes sv (sc # rest) (i, a, f) =
         Returned (map (scene_after_poll answer video) (sc # rest),
               i\<lparr>calls := calls i @ [CheckVideoStatus r] @ cs\<rparr>,
               a \<and> answer ` set (polled_requests (sc # rest)) \<subseteq> {COMPLETED, FAILED},
               f \<or> FAILED \<in> answer ` set (polled_requests (sc # rest)))"
        unfolding step
        by (simp add: scene_after_poll_def polled_requests_def List.map_filter_simps)
      then show ?thesis ..
    next
      case IN_PROGRESS
      from Cons.IH[of "i\<lparr>calls := calls i @ [CheckVideoStatus r]\<rparr>" False f]
      obtain cs where
        "poll_scenes sv rest (i\<lparr>calls := calls i @ [CheckVideoStatus r]\<rparr>, False, f) =
           Returned (map (scene_after_poll answer video) rest,
               i\<lparr>calls := calls i @ [CheckVideoStatus r] @ cs\<rparr>,
               False,
               f \<or> FAILED \<in> answer ` set (polled_requests rest))"
        by auto
      with Some IN_PROGRESS have "poll_scenes sv (sc # rest) (i, a, f) =
         Returned (map (scene_after_poll answer video) (sc # rest),
               i\<lparr>calls := calls i @ [CheckVideoStatus r] @ cs\<rparr>,
               a \<and> answer ` set (polled_requests (sc # rest)) \<subseteq> {COMPLETED, FAILED},
               f \<or> FAILED \<in> answer ` set (polled_requests (sc # rest)))"
        unfolding step
        by (simp add: scene_after_poll_def polled_requests_def List.map_filter_simps)
      then show ?thesis ..
    qed
  qed
qed

lemma alarm_polled:
  assumes "status s \<noteq> Complete" and "status s \<noteq> Failed"
    and "pollAttempts i + 1 \<le> MAX_POLL_ATTEMPTS"
    and "poll_scenes sv (jobScenes s) (i\<lparr>pollAttempts := pollAttempts i + 1\<rparr>, True, False)
           = Returned (polled, i1, allComplete, anyFailed)"
  shows "alarm sv (Some s, i) =
     (if anyFailed then
        (Some (updateProgress (s\<lparr>jobScenes := polled\<rparr>)
                 \<lparr>status := Failed, error := Some ''One or more videos failed to generate''\<rparr>),
         i1\<lparr>stored := stored i1 @ [row_of (updateProgress (s\<lparr>jobScenes := polled\<rparr>)),
                   row_of (updateProgress (s\<lparr>jobScenes := polled\<rparr>)
                      \<lparr>status := Failed, error := Some ''One or more videos failed to generate''\<rparr>)]\<rparr>)
      else if allComplete then
        loaded (compileVideo sv
          (updateProgress (s\<lparr>jobScenes := polled\<rparr>)\<lparr>status := Videos_complete\<rparr>,
           i1\<lparr>stored := stored i1 @ [row_of (updateProgress (s\<lparr>jobScenes := polled\<rparr>)),
                   row_of (updateProgress (s\<lparr>jobScenes := polled\<rparr>)\<lparr>status := Videos_complete\<rparr>)]\<rparr>))
      else
        (Some (updateProgress (s\<lparr>jobScenes := polled\<rparr>)),
         setAlarm (i1\<lparr>stored := stored i1 @ [row_of (updateProgress (s\<lparr>jobScenes := polled\<rparr>))]\<rparr>)))"
  using assms by (simp add: alarm_def)


lemma alarm_answers:
  assumes "status s \<noteq> Complete" and "status s \<noteq> Failed"
    and "pollAttempts i + 1 \<le> MAX_POLL_ATTEMPTS"
    and c: "fal_checkVideoStatus sv = (\<lambda>n r. Inr (answer r))"
    and g: "fal_getVideoResult sv = (\<lambda>n r. Inr (video r))"
  shows "\<exists>cs. alarm sv (Some s, i) =
     (let polled = map (scene_after_poll answer video) (jobScenes s);
          s1 = updateProgress (s\<lparr>jobScenes := polled\<rparr>);
          i1 = i\<lparr>pollAttempts := pollAttempts i + 1, calls := calls i @ cs\<rparr>
      in if FAILED \<in> answer ` set (polled_requests (jobScenes s)) then
           (Some (s1\<lparr>status := Failed, error := Some ''One or more videos failed to generate''\<rparr>),
            i1\<lparr>stored := stored i @ [row_of s1,
                 row_of (s1\<lparr>status := Failed,
                            error := Some ''One or more videos failed to generate''\<rparr>)]\<rparr>)
         else if answer ` set (polled_requests (jobScenes s)) \<subseteq> {COMPLETED} then
           loaded (compileVideo sv
             (s1\<lparr>status := Videos_complete\<rparr>,
              i1\<lparr>stored := stored i @ [row_of s1, row_of (s1\<lparr>status := Videos_complete\<rparr>)]\<rparr>))
         else
           (Some s1, setAlarm (i1\<lparr>stored := stored i @ [row_of s1]\<rparr>)))"
proof -
  from poll_scenes_answers[OF c g, of "jobScenes s" "i\<lparr>pollAttempts := pollAttempts i + 1\<rparr>" True False]
  obtain cs where p:
    "poll_scenes sv (jobScenes s) (i\<lparr>pollAttempts := pollAttempts i + 1\<rparr>, True, False) =
       Returned (map (scene_after_poll answer video) (jobScenes s),
                 i\<lparr>pollAttempts := pollAttempts i + 1, calls := calls i @ cs\<rparr>,
                 True \<and> answer ` set (polled_requests (jobScenes s)) \<subseteq> {COMPLETED, FAILED},
                 False \<or> FAILED \<in> answer ` set (polled_requests (jobScenes s)))"
    by auto
  have e: "answer ` set (polled_requests (jobScenes s)) \<subseteq> {COMPLETED}
           \<longleftrightarrow> answer ` set (polled_requests (jobScenes s)) \<subseteq> {COMPLETED, FAILED}"
    if nf: "FAILED \<notin> answer ` set (polled_requests (jobScenes s))"
  proof
    assume "answer ` set (polled_requests (jobScenes s)) \<subseteq> {COMPLETED}"
    then show "answer ` set (polled_requests (jobScenes s)) \<subseteq> {COMPLETED, FAILED}"
      by blast
  next
    assume h: "answer ` set (polled_requests (jobScenes s)) \<subseteq> {COMPLETED, FAILED}"
    show "answer ` set (polled_requests (jobScenes s)) \<subseteq> {COMPLETED}"
    proof
      fix x
      assume x: "x \<in> answer ` set (polled_requests (jobScenes s))"
      with h have c: "x = COMPLETED \<or> x = FAILED"
        by blast
      from x nf have "x \<noteq> FAILED"
        by metis
      with c show "x \<in> {COMPLETED}"
        by simp
    qed
  qed
  show ?thesis
    unfolding alarm_polled[OF assms(1,2,3) p] Let_def
    by (rule exI[of _ cs]) (simp add: e)
qed

text \<open>
  C1, as amended. Take an alarm of a running job, none of whose shots had failed before,
  at which the video service answers every call: the status of a request \<open>r\<close> is
  \<open>answer r\<close> and its result is \<open>video r\<close>. If the status of a request that the loop asks
  about is \<open>FAILED\<close>, the job transitions to \<open>Failed\<close> with
  \<open>One or more videos failed to generate\<close>, whatever the other shots are: the shots are
  left as the loop marked them, no row with \<open>VideosComplete\<close> is written and no alarm is
  armed. If every request that the loop asks about is \<open>COMPLETED\<close>, the job transitions to
  \<open>VideosComplete\<close> (and at once on to \<open>Compiling\<close>).
\<close>

theorem alarm_failed_video_fails_job:
  assumes "status s \<noteq> Complete" and "status s \<noteq> Failed"
    and "pollAttempts i + 1 \<le> MAX_POLL_ATTEMPTS"
    and "S_failed \<notin> sceneStatus ` set (jobScenes s)"
    and "fal_checkVideoStatus sv = (\<lambda>n r. Inr (answer r))"
    and "fal_getVideoResult sv = (\<lambda>n r. Inr (video r))"
  shows "(FAILED \<in> answer ` set (polled_requests (jobScenes s)) \<longrightarrow>
            map_option status (fst (alarm sv (Some s, i))) = Some Failed
            \<and> map_option error (fst (alarm sv (Some s, i)))
                = Some (Some ''One or more videos failed to generate'')
            \<and> map_option jobScenes (fst (alarm sv (Some s, i)))
                = Some (map (scene_after_poll answer video) (jobScenes s))
            \<and> map status (stored (snd (alarm sv (Some s, i))))
                = map status (stored i) @ [status s, Failed]
            \<and> alarmsSet (snd (alarm sv (Some s, i))) = alarmsSet i)
       \<and> (answer ` set (polled_requests (jobScenes s)) \<subseteq> {COMPLETED} \<longrightarrow>
            (\<exists>rows. map status (stored (snd (alarm sv (Some s, i))))
                = map status (stored i) @ [status s, Videos_complete, Compiling] @ rows))"
proof -
  from alarm_answers[OF assms(1,2,3,5,6)] obtain cs where a:
    "alarm sv (Some s, i) =
     (let polled = map (scene_after_poll answer video) (jobScenes s);
          s1 = updateProgress (s\<lparr>jobScenes := polled\<rparr>);
          i1 = i\<lparr>pollAttempts := pollAttempts i + 1, calls := calls i @ cs\<rparr>
      in if FAILED \<in> answer ` set (polled_requests (jobScenes s)) then
           (Some (s1\<lparr>status := Failed, error := Some ''One or more videos failed to generate''\<rparr>),
            i1\<lparr>stored := stored i @ [row_of s1,
                 row_of (s1\<lparr>status := Failed,
                            error := Some ''One or more videos failed to generate''\<rparr>)]\<rparr>)
         else if answer ` set (polled_requests (jobScenes s)) \<subseteq> {COMPLETED} then
           loaded (compileVideo sv
             (s1\<lparr>status := Videos_complete\<rparr>,
              i1\<lparr>stored := stored i @ [row_of s1, row_of (s1\<lparr>status := Videos_complete\<rparr>)]\<rparr>))
         else
           (Some s1, setAlarm (i1\<lparr>stored := stored i @ [row_of s1]\<rparr>)))"
    by blast
  let ?s1 = "updateProgress (s\<lparr>jobScenes := map (scene_after_poll answer video) (jobScenes s)\<rparr>)"
  let ?i1 = "i\<lparr>pollAttempts := pollAttempts i + 1, calls := calls i @ cs\<rparr>"
  have 1: "map_option status (fst (alarm sv (Some s, i))) = Some Failed
            \<and> map_option error (fst (alarm sv (Some s, i)))
                = Some (Some ''One or more videos failed to generate'')
            \<and> map_option jobScenes (fst (alarm sv (Some s, i)))
                = Some (map (scene_after_poll answer video) (jobScenes s))
            \<and> map status (stored (snd (alarm sv (Some s, i))))
                = map status (stored i) @ [status s, Failed]
            \<and> alarmsSet (snd (alarm sv (Some s, i))) = alarmsSet i"
    if "FAILED \<in> answer ` set (polled_requests (jobScenes s))"
    using that unfolding a Let_def by simp
  have 2: "\<exists>rows. map status (stored (snd (alarm sv (Some s, i))))
                = map status (stored i) @ [status s, Videos_complete, Compiling] @ rows"
    if "answer ` set (polled_requests (jobScenes s)) \<subseteq> {COMPLETED}"
  proof -
    from that have nf: "FAILED \<notin> answer ` set (polled_requests (jobScenes s))"
      by auto
    let ?job = "(?s1\<lparr>status := Videos_complete\<rparr>,
              ?i1\<lparr>stored := stored i @ [row_of ?s1, row_of (?s1\<lparr>status := Videos_complete\<rparr>)]\<rparr>)"
    obtain s' i' where r: "compileVideo sv ?job = (s', i')"
      by (cases "compileVideo sv ?job")
    from compileVideo_result[OF r] obtain rows where
      "stored i' = stored i @ [row_of ?s1, row_of (?s1\<lparr>status := Videos_complete\<rparr>)]
                 @ row_of (?s1\<lparr>status := Videos_complete, status := Compiling\<rparr>) # rows"
      by auto
    then have "map status (stored i')
        = map status (stored i) @ [status s, Videos_complete, Compiling] @ map status rows"
      by simp
    with that nf r show ?thesis
      unfolding a Let_def by auto
  qed
  from 1 2 show ?thesis
    by blast
qed

theorem alarm_failed_video_fails_job_witness:
  "status three_polling \<noteq> Complete \<and> status three_polling \<noteq> Failed
   \<and> pollAttempts (fresh 0) + 1 \<le> MAX_POLL_ATTEMPTS
   \<and> S_failed \<notin> sceneStatus ` set (jobScenes three_polling)
   \<and> fal_checkVideoStatus shot2_fails = (\<lambda>n r. Inr (if r = ''r2'' then FAILED else COMPLETED))
   \<and> fal_getVideoResult shot2_fails = (\<lambda>n r. Inr (''video of '' @ r))
   \<and> polled_requests (jobScenes three_polling) = [''r1'', ''r2'', ''r3'']
   \<and> map_option status (fst (alarm shot2_fails (Some three_polling, fresh 0))) = Some Failed
   \<and> map_option error (fst (alarm shot2_fails (Some three_polling, fresh 0)))
       = Some (Some ''One or more videos failed to generate'')
   \<and> map_option jobScenes (fst (alarm shot2_fails (Some three_polling, fresh 0))) = Some three_polled
   \<and> map status (stored (snd (alarm shot2_fails (Some three_polling, fresh 0))))
       = [Generating_videos, Failed]"
proof -
  have 1: "status three_polling \<noteq> Complete" and 2: "status three_polling \<noteq> Failed"
    by code_simp+
  have 3: "pollAttempts (fresh 0) + 1 \<le> MAX_POLL_ATTEMPTS"
    by code_simp
  have 4: "S_failed \<notin> sceneStatus ` set (jobScenes three_polling)"
    by code_simp
  have 5: "fal_checkVideoStatus shot2_fails = (\<lambda>n r. Inr (if r = ''r2'' then FAILED else COMPLETED))"
    by (simp add: shot2_fails_def)
  have 6: "fal_getVideoResult shot2_fails = (\<lambda>n r. Inr (''video of '' @ r))"
    by (simp add: shot2_fails_def services_ok_def)
  have 7: "polled_requests (jobScenes three_polling) = [''r1'', ''r2'', ''r3'']"
    by code_simp
  have 8: "FAILED \<in> (\<lambda>r. if r = ''r2'' then FAILED else COMPLETED) ` set (polled_requests (jobScenes three_polling))"
    unfolding 7 by simp
  have 9: "map (scene_after_poll (\<lambda>r. if r = ''r2'' then FAILED else COMPLETED) (\<lambda>r. ''video of '' @ r))
             (jobScenes three_polling) = three_polled"
    by code_simp
  have 10: "map status (stored (fresh 0)) @ [status three_polling, Failed] = [Generating_videos, Failed]"
    by code_simp
  from alarm_failed_video_fails_job[OF 1 2 3 4 5 6] 8
  have "map_option status (fst (alarm shot2_fails (Some three_polling, fresh 0))) = Some Failed
     \<and> map_option error (fst (alarm shot2_fails (Some three_polling, fresh 0)))
         = Some (Some ''One or more videos failed to generate'')
     \<and> map_option jobScenes (fst (alarm shot2_fails (Some three_polling, fresh 0)))
         = Some (map (scene_after_poll (\<lambda>r. if r = ''r2'' then FAILED else COMPLETED) (\<lambda>r. ''video of '' @ r))
             (jobScenes three_polling))
     \<and> map status (stored (snd (alarm shot2_fails (Some three_polling, fresh 0))))
         = map status (stored (fresh 0)) @ [status three_polling, Failed]"
    by blast
  then have "map_option status (fst (alarm shot2_fails (Some three_polling, fresh 0))) = Some Failed
     \<and> map_option error (fst (alarm shot2_fails (Some three_polling, fresh 0)))
         = Some (Some ''One or more videos failed to generate'')
     \<and> map_option jobScenes (fst (alarm shot2_fails (Some three_polling, fresh 0))) = Some three_polled
     \<and> map status (stored (snd (alarm shot2_fails (Some three_polling, fresh 0))))
         = [Generating_videos, Failed]"
    unfolding 9 10 .
  with 1 2 3 4 5 6 7 show ?thesis
    by blast
qed

text \<open>
  C1, as stated, fails on a job of three shots of which the second reports \<open>FAILED\<close> and the
  others complete: every shot is terminal, two are \<open>Complete\<close>, and the job is \<open>Failed\<close>; no
  row with the phase \<open>VideosComplete\<close> is written.
\<close>

theorem partial_video_failure_fails_job:
  "map_option status (fst (alarm shot2_fails (Some three_polling, fresh 0))) = Some Failed
  \<and> map_option error (fst (alarm shot2_fails (Some three_polling, fresh 0)))
      = Some (Some ''One or more videos failed to generate'')
  \<and> map_option (map sceneStatus) (map_option jobScenes (fst (alarm shot2_fails (Some three_polling, fresh 0))))
      = Some [S_complete, S_failed, S_complete]
  \<and> map status (stored (snd (alarm shot2_fails (Some three_polling, fresh 0))))
      = [Generating_videos, Failed]"
  by code_simp




lemma update_first_keeps:
  assumes "S_failed \<notin> sceneStatus ` set xs"
    and "\<And>x. sceneStatus x \<noteq> S_failed \<Longrightarrow> sceneStatus (f x) \<noteq> S_failed"
  shows "S_failed \<notin> sceneStatus ` set (update_first sid f xs)"
  using assms(1) by (induction xs) (auto, metis assms(2))

lemma on_scene_fields [simp]:
  "status (on_scene sid f s) = status s"
  "error (on_scene sid f s) = error s"
  "finalVideoUrl (on_scene sid f s) = finalVideoUrl s"
  by (simp_all add: on_scene_def)

lemma on_scene_keeps:
  assumes "S_failed \<notin> sceneStatus ` set (jobScenes s)"
    and "\<And>x. sceneStatus x \<noteq> S_failed \<Longrightarrow> sceneStatus (f x) \<noteq> S_failed"
  shows "S_failed \<notin> sceneStatus ` set (jobScenes (on_scene sid f s))"
  using update_first_keeps[OF assms(1), of f sid] assms(2) by (simp add: on_scene_def)

lemma find_sceneId:
  "List.find (\<lambda>st. sceneId st = k) xs = None \<longleftrightarrow> k \<notin> set (map sceneId xs)"
  by (auto simp: find_None_iff)

lemma sceneId_update_first:
  assumes "\<And>x. sceneId (f x) = sceneId x"
  shows "map sceneId (update_first sid f xs) = map sceneId xs"
  by (induction xs) (simp_all add: assms)

lemma find_update_first:
  assumes "\<And>x. sceneId (f x) = sceneId x"
  shows "List.find (\<lambda>st. sceneId st = sid) (update_first sid f xs)
         = map_option f (List.find (\<lambda>st. sceneId st = sid) xs)"
  by (induction xs) (simp_all add: assms)

lemma addressed_cong:
  "map sceneId (jobScenes s') = map sceneId (jobScenes s) \<Longrightarrow> addressed s' xs = addressed s xs"
  by (simp add: addressed_def find_sceneId)

lemma generate_scene_images_skip:
  "List.find (\<lambda>st. sceneId st = sc_id scene) (jobScenes s) = None \<Longrightarrow>
     generate_scene_images sv (scene # rest) (s, i) = generate_scene_images sv rest (s, i)"
  by simp

lemma generate_scene_images_step:
  assumes "fal_generateImage sv = (\<lambda>n p. img p)"
    and "List.find (\<lambda>st. sceneId st = sc_id scene) (jobScenes s) \<noteq> None"
    and "img (sc_startPrompt scene) = Inr u" and "img (sc_endPrompt scene) = Inr v"
  shows "generate_scene_images sv (scene # rest) (s, i) =
     (let s1 = updateProgress
                 (on_scene (sc_id scene) (\<lambda>st. st\<lparr>sceneStatus := S_generating_start_image\<rparr>) s);
          s2 = updateProgress
                 (on_scene (sc_id scene)
                    (\<lambda>st. st\<lparr>startImageUrl := Some u, sceneStatus := S_generating_end_image\<rparr>) s1)
      in generate_scene_images sv rest
           (on_scene (sc_id scene) (\<lambda>st. st\<lparr>endImageUrl := Some v\<rparr>) s2,
            i\<lparr>stored := stored i @ [row_of s1, row_of s2],
              calls := calls i @ image_calls scene\<rparr>))"
proof -
  from assms(2) have n: "(List.find (\<lambda>st. sceneId st = sc_id scene) (jobScenes s) = None) = False"
    by simp
  show ?thesis
    by (simp add: assms(1,3,4) n log_call_def Let_def image_calls_def)
qed

lemma generate_scene_images_start_fails:
  assumes "fal_generateImage sv = (\<lambda>n p. img p)"
    and "List.find (\<lambda>st. sceneId st = sc_id scene) (jobScenes s) \<noteq> None"
    and "img (sc_startPrompt scene) = Inl e"
  shows "generate_scene_images sv (scene # rest) (s, i) =
     (let s1 = updateProgress
                 (on_scene (sc_id scene) (\<lambda>st. st\<lparr>sceneStatus := S_generating_start_image\<rparr>) s)
      in Threw e (s1, i\<lparr>stored := stored i @ [row_of s1],
                         calls := calls i @ [GenerateImage (sc_startPrompt scene)]\<rparr>))"
proof -
  from assms(2) have n: "(List.find (\<lambda>st. sceneId st = sc_id scene) (jobScenes s) = None) = False"
    by simp
  show ?thesis
    by (simp add: assms(1,3) n log_call_def Let_def)
qed

lemma generate_scene_images_end_fails:
  assumes "fal_generateImage sv = (\<lambda>n p. img p)"
    and "List.find (\<lambda>st. sceneId st = sc_id scene) (jobScenes s) \<noteq> None"
    and "img (sc_startPrompt scene) = Inr u" and "img (sc_endPrompt scene) = Inl e"
  shows "generate_scene_images sv (scene # rest) (s, i) =
     (let s1 = updateProgress
                 (on_scene (sc_id scene) (\<lambda>st. st\<lparr>sceneStatus := S_generating_start_image\<rparr>) s);
          s2 = updateProgress
                 (on_scene (sc_id scene)
                    (\<lambda>st. st\<lparr>startImageUrl := Some u, sceneStatus := S_generating_end_image\<rparr>) s1)
      in Threw e (s2, i\<lparr>stored := stored i @ [row_of s1, row_of s2],
                         calls := calls i @ image_calls scene\<rparr>))"
proof -
  from assms(2) have n: "(List.find (\<lambda>st. sceneId st = sc_id scene) (jobScenes s) = None) = False"
    by simp
  show ?thesis
    by (simp add: assms(1,3,4) n log_call_def Let_def image_calls_def)
qed

lemma jobScenes_on_scene [simp]:
  "jobScenes (on_scene sid f s) = update_first sid f (jobScenes s)"
  by (simp add: on_scene_def)

lemma generate_scene_images_prefix:
  assumes img: "fal_generateImage sv = (\<lambda>n p. img p)"
    and ok: "list_all (\<lambda>sc. \<not> isl (img (sc_startPrompt sc)) \<and> \<not> isl (img (sc_endPrompt sc)))
               (addressed s xs)"
  shows "\<exists>s' rows.
     generate_scene_images sv (xs @ ys) (s, i) =
       generate_scene_images sv ys
         (s', i\<lparr>stored := stored i @ rows,
                calls := calls i @ concat (map image_calls (addressed s xs))\<rparr>)
     \<and> status s' = status s \<and> error s' = error s
     \<and> map sceneId (jobScenes s') = map sceneId (jobScenes s)
     \<and> map status rows = replicate (2 * length (addressed s xs)) (status s)
     \<and> (S_failed \<notin> sceneStatus ` set (jobScenes s) \<longrightarrow> S_failed \<notin> sceneStatus ` set (jobScenes s'))"
  using ok
proof (induction xs arbitrary: s i)
  case Nil
  have "generate_scene_images sv ([] @ ys) (s, i) =
       generate_scene_images sv ys (s, i\<lparr>stored := stored i @ [], calls := calls i @ []\<rparr>)"
    by simp
  then show ?case
    by (intro exI[of _ s] exI[of _ "[]"]) (simp add: addressed_def)
next
  case (Cons scene xs)
  show ?case
  proof (cases "List.find (\<lambda>st. sceneId st = sc_id scene) (jobScenes s) = None")
    case True
    then have a: "addressed s (scene # xs) = addressed s xs"
      by (simp add: addressed_def)
    from Cons.IH[of s i] Cons.prems obtain s' rows where
      "generate_scene_images sv (xs @ ys) (s, i) =
         generate_scene_images sv ys
           (s', i\<lparr>stored := stored i @ rows,
                  calls := calls i @ concat (map image_calls (addressed s xs))\<rparr>)"
      "status s' = status s" "error s' = error s"
      "map sceneId (jobScenes s') = map sceneId (jobScenes s)"
      "map status rows = replicate (2 * length (addressed s xs)) (status s)"
      "S_failed \<notin> sceneStatus ` set (jobScenes s) \<longrightarrow> S_failed \<notin> sceneStatus ` set (jobScenes s')"
      unfolding a by blast
    with True show ?thesis
      unfolding a by (intro exI[of _ s'] exI[of _ rows]) (simp del: generate_scene_images.simps add: generate_scene_images_skip)
  next
    case False
    then have a: "addressed s (scene # xs) = scene # addressed s xs"
      by (simp add: addressed_def)
    from Cons.prems obtain u v where
      u: "img (sc_startPrompt scene) = Inr u" and v: "img (sc_endPrompt scene) = Inr v"
      unfolding a by (cases "img (sc_startPrompt scene)"; cases "img (sc_endPrompt scene)") auto
    let ?s1 = "updateProgress
                 (on_scene (sc_id scene) (\<lambda>st. st\<lparr>sceneStatus := S_generating_start_image\<rparr>) s)"
    let ?s2 = "updateProgress
                 (on_scene (sc_id scene)
                    (\<lambda>st. st\<lparr>startImageUrl := Some u, sceneStatus := S_generating_end_image\<rparr>) ?s1)"
    let ?s3 = "on_scene (sc_id scene) (\<lambda>st. st\<lparr>endImageUrl := Some v\<rparr>) ?s2"
    let ?i3 = "i\<lparr>stored := stored i @ [row_of ?s1, row_of ?s2],
                 calls := calls i @ image_calls scene\<rparr>"
    have step: "generate_scene_images sv ((scene # xs) @ ys) (s, i)
                = generate_scene_images sv (xs @ ys) (?s3, ?i3)"
      using generate_scene_images_step[OF img False u v, of "xs @ ys" i]
      by (simp only: Let_def append_Cons)
    have ids: "map sceneId (jobScenes ?s3) = map sceneId (jobScenes s)"
      by (simp add: sceneId_update_first)
    have ad: "addressed ?s3 xs = addressed s xs"
      by (rule addressed_cong[OF ids])
    have keep: "S_failed \<notin> sceneStatus ` set (jobScenes s) \<Longrightarrow> S_failed \<notin> sceneStatus ` set (jobScenes ?s3)"
    proof -
      assume k0: "S_failed \<notin> sceneStatus ` set (jobScenes s)"
      have k1: "S_failed \<notin> sceneStatus ` set (jobScenes ?s1)"
        using on_scene_keeps[OF k0, of "\<lambda>st. st\<lparr>sceneStatus := S_generating_start_image\<rparr>" "sc_id scene"]
        by simp
      have k2: "S_failed \<notin> sceneStatus ` set (jobScenes ?s2)"
        using on_scene_keeps[of ?s1 "\<lambda>st. st\<lparr>startImageUrl := Some u, sceneStatus := S_generating_end_image\<rparr>" "sc_id scene"] k1
        by simp
      show ?thesis
        using on_scene_keeps[of ?s2 "\<lambda>st. st\<lparr>endImageUrl := Some v\<rparr>" "sc_id scene"] k2
        by simp
    qed
    from Cons.prems have "list_all (\<lambda>sc. \<not> isl (img (sc_startPrompt sc)) \<and> \<not> isl (img (sc_endPrompt sc)))
               (addressed ?s3 xs)"
      unfolding a ad by simp
    from Cons.IH[OF this, of ?i3] obtain s' rows where r:
      "generate_scene_images sv (xs @ ys) (?s3, ?i3) =
         generate_scene_images sv ys
           (s', ?i3\<lparr>stored := stored ?i3 @ rows,
                    calls := calls ?i3 @ concat (map image_calls (addressed s xs))\<rparr>)"
      "status s' = status s" "error s' = error s"
      "map sceneId (jobScenes s') = map sceneId (jobScenes s)"
      "map status rows = replicate (2 * length (addressed s xs)) (status s)"
      "S_failed \<notin> sceneStatus ` set (jobScenes ?s3) \<longrightarrow> S_failed \<notin> sceneStatus ` set (jobScenes s')"
      unfolding ad ids by auto
    have "generate_scene_images sv ((scene # xs) @ ys) (s, i) =
         generate_scene_images sv ys
           (s', i\<lparr>stored := stored i @ ([row_of ?s1, row_of ?s2] @ rows),
                  calls := calls i @ concat (map image_calls (addressed s (scene # xs)))\<rparr>)"
      unfolding step r(1) a by simp
    moreover have "map status ([row_of ?s1, row_of ?s2] @ rows)
        = replicate (2 * length (addressed s (scene # xs))) (status s)"
      unfolding a using r(5) by simp
    ultimately show ?thesis
      using r(2,3,4,6) keep by blast
  qed
qed

lemma submit_videos_stored:
  "submit_videos sv scs (s, i) = Returned (s', i') \<or> submit_videos sv scs (s, i) = Threw e (s', i')
     \<Longrightarrow> stored i' = stored i"
proof (induction scs arbitrary: s i)
  case Nil
  then show ?case by auto
next
  case (Cons scene rest)
  from Cons.prems show ?case
    by (auto simp: log_call_def split: option.splits if_splits sum.splits dest!: Cons.IH[OF disjI1] Cons.IH[OF disjI2])
qed

lemma startVideoGeneration_stored:
  "\<exists>rows. stored (snd (startVideoGeneration sv scs (s, i)))
            = stored i @ row_of (s\<lparr>status := Generating_videos\<rparr>) # rows"
proof (cases "submit_videos sv scs (s\<lparr>status := Generating_videos\<rparr>,
                 i\<lparr>stored := stored i @ [row_of (s\<lparr>status := Generating_videos\<rparr>)]\<rparr>)")
  case (Returned job)
  obtain s1 i1 where "job = (s1, i1)" by (cases job)
  with Returned submit_videos_stored[of sv scs "s\<lparr>status := Generating_videos\<rparr>"
      "i\<lparr>stored := stored i @ [row_of (s\<lparr>status := Generating_videos\<rparr>)]\<rparr>" s1 i1]
  show ?thesis
    by (auto simp: startVideoGeneration_def setAlarm_def)
next
  case (Threw e job)
  obtain s1 i1 where "job = (s1, i1)" by (cases job)
  with Threw submit_videos_stored[of sv scs "s\<lparr>status := Generating_videos\<rparr>"
      "i\<lparr>stored := stored i @ [row_of (s\<lparr>status := Generating_videos\<rparr>)]\<rparr>" s1 i1 e]
  show ?thesis
    by (auto simp: startVideoGeneration_def)
qed

text \<open>
  C2, as amended. During the image phase, let the image service answer the prompt \<open>p\<close>
  with \<open>img p\<close>, a URL or an error. If the service answers every prompt of the shots
  before some shot and throws for the start prompt of that shot, or for its end prompt
  after it has answered the start prompt, then the phase is aborted: the job transitions
  to \<open>Failed\<close> with the message of the error; the calls made are the two of each shot
  before and the one or two of the failing shot, so no shot after it is processed; no
  alarm is armed; the failing shot keeps its \<open>generating\<close> status, and no shot is marked
  \<open>Failed\<close>. If the service answers every prompt, the job goes on, through
  \<open>ImagesComplete\<close>, to the video phase. (The shots are those for which the job holds a
  scene state.)
\<close>

theorem image_error_fails_job:
  assumes "fal_generateImage sv = (\<lambda>n p. img p)"
  shows
   "(list_all (\<lambda>sc. \<not> isl (img (sc_startPrompt sc)) \<and> \<not> isl (img (sc_endPrompt sc)))
        (addressed s before)
     \<and> List.find (\<lambda>st. sceneId st = sc_id scene) (jobScenes s) \<noteq> None
     \<and> (img (sc_startPrompt scene) = Inl e
        \<or> \<not> isl (img (sc_startPrompt scene)) \<and> img (sc_endPrompt scene) = Inl e) \<longrightarrow>
      status (fst (generateImages sv (before @ scene # after) (s, i))) = Failed
      \<and> error (fst (generateImages sv (before @ scene # after) (s, i))) = Some e
      \<and> calls (snd (generateImages sv (before @ scene # after) (s, i)))
          = calls i @ concat (map image_calls (addressed s before))
              @ (if isl (img (sc_startPrompt scene)) then [GenerateImage (sc_startPrompt scene)]
                 else image_calls scene)
      \<and> alarmsSet (snd (generateImages sv (before @ scene # after) (s, i))) = alarmsSet i
      \<and> map_option sceneStatus
            (List.find (\<lambda>st. sceneId st = sc_id scene)
               (jobScenes (fst (generateImages sv (before @ scene # after) (s, i)))))
          = Some (if isl (img (sc_startPrompt scene)) then S_generating_start_image
                  else S_generating_end_image)
      \<and> (S_failed \<notin> sceneStatus ` set (jobScenes s) \<longrightarrow>
           S_failed \<notin> sceneStatus ` set
              (jobScenes (fst (generateImages sv (before @ scene # after) (s, i))))))
   \<and> (list_all (\<lambda>sc. \<not> isl (img (sc_startPrompt sc)) \<and> \<not> isl (img (sc_endPrompt sc)))
        (addressed s scs) \<longrightarrow>
      (\<exists>rows. map status (stored (snd (generateImages sv scs (s, i))))
           = map status (stored i) @ replicate (2 * length (addressed s scs)) (status s)
             @ [Images_complete, Generating_videos] @ rows))"
proof -
  have 1: "status (fst (generateImages sv (before @ scene # after) (s, i))) = Failed
      \<and> error (fst (generateImages sv (before @ scene # after) (s, i))) = Some e
      \<and> calls (snd (generateImages sv (before @ scene # after) (s, i)))
          = calls i @ concat (map image_calls (addressed s before))
              @ (if isl (img (sc_startPrompt scene)) then [GenerateImage (sc_startPrompt scene)]
                 else image_calls scene)
      \<and> alarmsSet (snd (generateImages sv (before @ scene # after) (s, i))) = alarmsSet i
      \<and> map_option sceneStatus
            (List.find (\<lambda>st. sceneId st = sc_id scene)
               (jobScenes (fst (generateImages sv (before @ scene # after) (s, i)))))
          = Some (if isl (img (sc_startPrompt scene)) then S_generating_start_image
                  else S_generating_end_image)
      \<and> (S_failed \<notin> sceneStatus ` set (jobScenes s) \<longrightarrow>
           S_failed \<notin> sceneStatus ` set
              (jobScenes (fst (generateImages sv (before @ scene # after) (s, i)))))"
    if ok: "list_all (\<lambda>sc. \<not> isl (img (sc_startPrompt sc)) \<and> \<not> isl (img (sc_endPrompt sc)))
        (addressed s before)"
      and st: "List.find (\<lambda>st. sceneId st = sc_id scene) (jobScenes s) \<noteq> None"
      and bad: "img (sc_startPrompt scene) = Inl e
        \<or> \<not> isl (img (sc_startPrompt scene)) \<and> img (sc_endPrompt scene) = Inl e"
  proof -
    from generate_scene_images_prefix[OF assms ok, of "scene # after" i] obtain s0 rows where p:
      "generate_scene_images sv (before @ scene # after) (s, i) =
         generate_scene_images sv (scene # after)
           (s0, i\<lparr>stored := stored i @ rows,
                  calls := calls i @ concat (map image_calls (addressed s before))\<rparr>)"
      "status s0 = status s" "error s0 = error s"
      "map sceneId (jobScenes s0) = map sceneId (jobScenes s)"
      "S_failed \<notin> sceneStatus ` set (jobScenes s) \<longrightarrow> S_failed \<notin> sceneStatus ` set (jobScenes s0)"
      by blast
    let ?i0 = "i\<lparr>stored := stored i @ rows,
                  calls := calls i @ concat (map image_calls (addressed s before))\<rparr>"
    from st p(4) have st0: "List.find (\<lambda>st. sceneId st = sc_id scene) (jobScenes s0) \<noteq> None"
      by (simp add: find_sceneId)
    then obtain x where x: "List.find (\<lambda>st. sceneId st = sc_id scene) (jobScenes s0) = Some x"
      by blast
    let ?s1 = "updateProgress
                 (on_scene (sc_id scene) (\<lambda>st. st\<lparr>sceneStatus := S_generating_start_image\<rparr>) s0)"
    have k1: "S_failed \<notin> sceneStatus ` set (jobScenes s0) \<Longrightarrow> S_failed \<notin> sceneStatus ` set (jobScenes ?s1)"
      using on_scene_keeps[of s0 "\<lambda>st. st\<lparr>sceneStatus := S_generating_start_image\<rparr>" "sc_id scene"]
      by simp
    have f1: "map_option sceneStatus (List.find (\<lambda>st. sceneId st = sc_id scene) (jobScenes ?s1))
              = Some S_generating_start_image"
      by (simp add: find_update_first x)
    show ?thesis
    proof (cases "img (sc_startPrompt scene)")
      case (Inl e1)
      with bad have e1: "img (sc_startPrompt scene) = Inl e"
        by auto
      have "generate_scene_images sv (before @ scene # after) (s, i) =
          Threw e (?s1, ?i0\<lparr>stored := stored ?i0 @ [row_of ?s1],
                         calls := calls ?i0 @ [GenerateImage (sc_startPrompt scene)]\<rparr>)"
        unfolding p(1) using generate_scene_images_start_fails[OF assms st0 e1, of after ?i0]
        by (simp only: Let_def)
      then have "generateImages sv (before @ scene # after) (s, i) =
          fail_with e (?s1, ?i0\<lparr>stored := stored ?i0 @ [row_of ?s1],
                         calls := calls ?i0 @ [GenerateImage (sc_startPrompt scene)]\<rparr>)"
        by (simp only: generateImages_def outcome.case)
      with e1 f1 k1 p(5) show ?thesis
        by simp
    next
      case (Inr u)
      with bad have e2: "img (sc_endPrompt scene) = Inl e"
        by auto
      let ?s2 = "updateProgress
                 (on_scene (sc_id scene)
                    (\<lambda>st. st\<lparr>startImageUrl := Some u, sceneStatus := S_generating_end_image\<rparr>) ?s1)"
      have k2: "S_failed \<notin> sceneStatus ` set (jobScenes s0) \<Longrightarrow> S_failed \<notin> sceneStatus ` set (jobScenes ?s2)"
        using on_scene_keeps[of ?s1 "\<lambda>st. st\<lparr>startImageUrl := Some u, sceneStatus := S_generating_end_image\<rparr>" "sc_id scene"] k1
        by simp
      have f2: "map_option sceneStatus (List.find (\<lambda>st. sceneId st = sc_id scene) (jobScenes ?s2))
              = Some S_generating_end_image"
        by (simp add: find_update_first x)
      have "generate_scene_images sv (before @ scene # after) (s, i) =
          Threw e (?s2, ?i0\<lparr>stored := stored ?i0 @ [row_of ?s1, row_of ?s2],
                         calls := calls ?i0 @ image_calls scene\<rparr>)"
        unfolding p(1) using generate_scene_images_end_fails[OF assms st0 Inr e2, of after ?i0]
        by (simp only: Let_def)
      then have "generateImages sv (before @ scene # after) (s, i) =
          fail_with e (?s2, ?i0\<lparr>stored := stored ?i0 @ [row_of ?s1, row_of ?s2],
                         calls := calls ?i0 @ image_calls scene\<rparr>)"
        by (simp only: generateImages_def outcome.case)
      with Inr f2 k2 p(5) show ?thesis
        by simp
    qed
  qed
  have 2: "\<exists>rows. map status (stored (snd (generateImages sv scs (s, i))))
           = map status (stored i) @ replicate (2 * length (addressed s scs)) (status s)
             @ [Images_complete, Generating_videos] @ rows"
    if ok: "list_all (\<lambda>sc. \<not> isl (img (sc_startPrompt sc)) \<and> \<not> isl (img (sc_endPrompt sc)))
        (addressed s scs)"
  proof -
    from generate_scene_images_prefix[OF assms ok, of "[]" i] obtain s0 rows where p:
      "generate_scene_images sv scs (s, i) =
         Returned (s0, i\<lparr>stored := stored i @ rows,
                  calls := calls i @ concat (map image_calls (addressed s scs))\<rparr>)"
      "status s0 = status s"
      "map status rows = replicate (2 * length (addressed s scs)) (status s)"
      by auto
    let ?i0 = "i\<lparr>stored := stored i @ rows,
                  calls := calls i @ concat (map image_calls (addressed s scs))\<rparr>"
    let ?s2 = "updateProgress (s0\<lparr>status := Images_complete\<rparr>)"
    let ?i2 = "?i0\<lparr>stored := stored ?i0 @ [row_of ?s2]\<rparr>"
    from startVideoGeneration_stored[of sv scs ?s2 ?i2] obtain rows' where
      "stored (snd (startVideoGeneration sv scs (?s2, ?i2)))
         = stored ?i2 @ row_of (?s2\<lparr>status := Generating_videos\<rparr>) # rows'"
      by blast
    then have "map status (stored (snd (generateImages sv scs (s, i))))
           = map status (stored i) @ replicate (2 * length (addressed s scs)) (status s)
             @ [Images_complete, Generating_videos] @ map status rows'"
      by (simp add: generateImages_def p)
    then show ?thesis ..
  qed
  from 1 2 show ?thesis
    by blast
qed

text \<open>
  C2, as stated, fails on this job of two shots, where the service rejects the start
  prompt of the first and would have answered for the second: the job is \<open>Failed\<close>, the
  first shot is still \<open>generating_start_image\<close>, the second was never processed.
\<close>

theorem image_error_aborts_phase:
  "status (fst (generateImages first_image_fails two_scenes (two_pending, fresh 0))) = Failed
   \<and> error (fst (generateImages first_image_fails two_scenes (two_pending, fresh 0)))
       = Some ''Flux API error: 400 - bad prompt''
   \<and> map sceneStatus (jobScenes (fst (generateImages first_image_fails two_scenes (two_pending, fresh 0))))
       = [S_generating_start_image, S_pending]
   \<and> calls (snd (generateImages first_image_fails two_scenes (two_pending, fresh 0)))
       = [GenerateImage ''s1'']
   \<and> fal_generateImage first_image_fails 1 ''s2'' = Inr ''image of s2''"
  by code_simp

theorem image_error_fails_job_witness:
  "fal_generateImage second_end_fails
     = (\<lambda>n p. if p = ''e2'' then Inl ''Flux API error: 400 - bad prompt'' else Inr (''image of '' @ p))
   \<and> addressed three_pending [scene_one] = [scene_one]
   \<and> status (fst (generateImages second_end_fails [scene_one, scene_two, scene_three]
                     (three_pending, fresh 0))) = Failed
   \<and> error (fst (generateImages second_end_fails [scene_one, scene_two, scene_three]
                     (three_pending, fresh 0))) = Some ''Flux API error: 400 - bad prompt''
   \<and> calls (snd (generateImages second_end_fails [scene_one, scene_two, scene_three]
                     (three_pending, fresh 0)))
       = [GenerateImage ''s1'', GenerateImage ''e1'', GenerateImage ''s2'', GenerateImage ''e2'']
   \<and> map_option sceneStatus
        (List.find (\<lambda>st. sceneId st = sc_id scene_two)
           (jobScenes (fst (generateImages second_end_fails [scene_one, scene_two, scene_three]
                              (three_pending, fresh 0)))))
       = Some S_generating_end_image
   \<and> map sceneStatus
        (jobScenes (fst (generateImages second_end_fails [scene_one, scene_two, scene_three]
                           (three_pending, fresh 0))))
       = [S_generating_end_image, S_generating_end_image, S_pending]"
proof -
  let ?img = "\<lambda>p. if p = ''e2'' then Inl ''Flux API error: 400 - bad prompt''
                     else (Inr (''image of '' @ p) :: string + string)"
  have 1: "fal_generateImage second_end_fails = (\<lambda>n p. ?img p)"
    by (simp add: second_end_fails_def)
  have 2: "addressed three_pending [scene_one] = [scene_one]"
    by code_simp
  have 3: "list_all (\<lambda>sc. \<not> isl (?img (sc_startPrompt sc)) \<and> \<not> isl (?img (sc_endPrompt sc)))
             (addressed three_pending [scene_one])"
    unfolding 2 by (simp add: scene_one_def)
  have 4: "List.find (\<lambda>st. sceneId st = sc_id scene_two) (jobScenes three_pending) \<noteq> None"
    by code_simp
  have 5: "?img (sc_startPrompt scene_two) = Inl ''Flux API error: 400 - bad prompt''
        \<or> \<not> isl (?img (sc_startPrompt scene_two))
          \<and> ?img (sc_endPrompt scene_two) = Inl ''Flux API error: 400 - bad prompt''"
    by (simp add: scene_two_def)
  have 6: "[scene_one] @ scene_two # [scene_three] = [scene_one, scene_two, scene_three]"
    by simp
  have 7: "calls (fresh 0) @ concat (map image_calls (addressed three_pending [scene_one]))
              @ (if isl (?img (sc_startPrompt scene_two)) then [GenerateImage (sc_startPrompt scene_two)]
                 else image_calls scene_two)
           = [GenerateImage ''s1'', GenerateImage ''e1'', GenerateImage ''s2'', GenerateImage ''e2'']"
    unfolding 2 by (simp add: fresh_def image_calls_def scene_one_def scene_two_def)
  have 8: "(if isl (?img (sc_startPrompt scene_two)) then S_generating_start_image
                  else S_generating_end_image) = S_generating_end_image"
    by (simp add: scene_two_def)
  have 9: "map sceneStatus
        (jobScenes (fst (generateImages second_end_fails [scene_one, scene_two, scene_three]
                           (three_pending, fresh 0))))
       = [S_generating_end_image, S_generating_end_image, S_pending]"
    by code_simp
  from image_error_fails_job[OF 1, of three_pending "[scene_one]" scene_two
         "''Flux API error: 400 - bad prompt''" "[scene_three]" "fresh 0"] 3 4 5
  have "status (fst (generateImages second_end_fails ([scene_one] @ scene_two # [scene_three])
                     (three_pending, fresh 0))) = Failed
   \<and> error (fst (generateImages second_end_fails ([scene_one] @ scene_two # [scene_three])
                     (three_pending, fresh 0))) = Some ''Flux API error: 400 - bad prompt''
   \<and> calls (snd (generateImages second_end_fails ([scene_one] @ scene_two # [scene_three])
                     (three_pending, fresh 0)))
       = calls (fresh 0) @ concat (map image_calls (addressed three_pending [scene_one]))
              @ (if isl (?img (sc_startPrompt scene_two)) then [GenerateImage (sc_startPrompt scene_two)]
                 else image_calls scene_two)
   \<and> map_option sceneStatus
        (List.find (\<lambda>st. sceneId st = sc_id scene_two)
           (jobScenes (fst (generateImages second_end_fails ([scene_one] @ scene_two # [scene_three])
                              (three_pending, fresh 0)))))
       = Some (if isl (?img (sc_startPrompt scene_two)) then S_generating_start_image
                  else S_generating_end_image)"
    by blast
  then have "status (fst (generateImages second_end_fails [scene_one, scene_two, scene_three]
                     (three_pending, fresh 0))) = Failed
   \<and> error (fst (generateImages second_end_fails [scene_one, scene_two, scene_three]
                     (three_pending, fresh 0))) = Some ''Flux API error: 400 - bad prompt''
   \<and> calls (snd (generateImages second_end_fails [scene_one, scene_two, scene_three]
                     (three_pending, fresh 0)))
       = [GenerateImage ''s1'', GenerateImage ''e1'', GenerateImage ''s2'', GenerateImage ''e2'']
   \<and> map_option sceneStatus
        (List.find (\<lambda>st. sceneId st = sc_id scene_two)
           (jobScenes (fst (generateImages second_end_fails [scene_one, scene_two, scene_three]
                              (three_pending, fresh 0)))))
       = Some S_generating_end_image"
    unfolding 6 7 8 .
  with 1 2 9 show ?thesis
    by blast
qed

theorem alarm_poll_timeout_witness:
  "pollAttempts (fresh 40) + 1 > MAX_POLL_ATTEMPTS
   \<and> status three_polling \<noteq> Complete \<and> status three_polling \<noteq> Failed
   \<and> calls (snd (alarm services_ok (Some three_polling, fresh 40))) = []
   \<and> alarmsSet (snd (alarm services_ok (Some three_polling, fresh 40))) = 0
   \<and> alarm shot2_fails (alarm services_ok (Some three_polling, fresh 40))
       = alarm services_ok (Some three_polling, fresh 40)"
proof -
  have 1: "pollAttempts (fresh 40) + 1 > MAX_POLL_ATTEMPTS"
    by code_simp
  have 2: "status three_polling \<noteq> Complete" and 3: "status three_polling \<noteq> Failed"
    by code_simp+
  have 4: "calls (fresh 40) = []" "alarmsSet (fresh 40) = 0"
    by code_simp+
  note t = alarm_poll_timeout[OF 1 2 3, of services_ok shot2_fails]
  from t have "calls (snd (alarm services_ok (Some three_polling, fresh 40))) = calls (fresh 40)"
    by blast
  then have c: "calls (snd (alarm services_ok (Some three_polling, fresh 40))) = []"
    by (simp only: 4)
  from t have "alarmsSet (snd (alarm services_ok (Some three_polling, fresh 40))) = alarmsSet (fresh 40)"
    by blast
  then have d: "alarmsSet (snd (alarm services_ok (Some three_polling, fresh 40))) = 0"
    by (simp only: 4)
  from t have e: "alarm shot2_fails (alarm services_ok (Some three_polling, fresh 40))
       = alarm services_ok (Some three_polling, fresh 40)"
    by blast
  from 1 2 3 c d e show ?thesis
    by blast
qed

text \<open>
  C6, as stated, fails on a job at its 41st alarm: the message is
  \<open>Video generation timed out\<close>, not \<open>Timeout in GeneratingVideos\<close>.
\<close>

theorem poll_timeout_message:
  "map_option status (fst (alarm services_ok (Some three_polling, fresh 40))) = Some Failed
  \<and> map_option error (fst (alarm services_ok (Some three_polling, fresh 40)))
      = Some (Some ''Video generation timed out'')
  \<and> ''Video generation timed out'' \<noteq> ''Timeout in GeneratingVideos''"
  by code_simp

text \<open>
  C7. The code at a failing input: with 67 shots whose videos all complete at this
  alarm, \<open>Math.round(201 / 202 * 100)\<close> is 100, and the rows persisted with the phases
  \<open>GeneratingVideos\<close>, \<open>VideosComplete\<close> and \<open>Compiling\<close> already carry progress 100.
\<close>

theorem progress_100_before_complete:
  "length (jobScenes sixty_seven) = 67
   \<and> zip (map status (stored (snd (alarm services_ok (Some sixty_seven, fresh 0)))))
          (map progress (stored (snd (alarm services_ok (Some sixty_seven, fresh 0)))))
      = [(Generating_videos, 100), (Videos_complete, 100), (Compiling, 100), (Complete, 100)]"
  by code_simp

section \<open>Properties of the router\<close>

lemma segments_nonempty: "segments s \<noteq> []"
  by (induction s) (auto split: list.splits)

lemma segments_plain: "plain s \<Longrightarrow> segments s = [s]"
  by (induction s) (auto simp: plain_def split: list.splits)

lemma segments_append: "plain s \<Longrightarrow> segments (s @ CHR '':'' # rest) = s # segments rest"
  by (induction s) (auto simp: plain_def)

lemma segments_job_key:
  "plain u \<Longrightarrow> plain j \<Longrightarrow> segments (job_key u j) = [''user'', u, ''job'', j]"
proof -
  assume u: "plain u" and j: "plain j"
  have p: "plain ''user''" "plain ''job''" by (simp_all add: plain_def)
  have "job_key u j = ''user'' @ CHR '':'' # (u @ CHR '':'' # (''job'' @ CHR '':'' # j))"
    by (simp add: job_key_def)
  then show ?thesis
    by (simp only: segments_append[OF p(1)] segments_append[OF u] segments_append[OF p(2)] segments_plain[OF j])
qed

lemma segments_project_key:
  "plain u \<Longrightarrow> plain p \<Longrightarrow> segments (project_key u p) = [''user'', u, ''project'', p]"
proof -
  assume u: "plain u" and j: "plain p"
  have p: "plain ''user''" "plain ''project''" by (simp_all add: plain_def)
  have "project_key u p = ''user'' @ CHR '':'' # (u @ CHR '':'' # (''project'' @ CHR '':'' # p))"
    by (simp add: project_key_def)
  then show ?thesis
    by (simp only: segments_append[OF p(1)] segments_append[OF u] segments_append[OF p(2)] segments_plain[OF j])
qed

lemma segments_current_job_key:
  "plain u \<Longrightarrow> plain p \<Longrightarrow>
     segments (current_job_key u p) = [''user'', u, ''project'', p, ''currentJob'']"
proof -
  assume u: "plain u" and j: "plain p"
  have p: "plain ''user''" "plain ''project''" "plain ''currentJob''" by (simp_all add: plain_def)
  have "current_job_key u p
      = ''user'' @ CHR '':'' # (u @ CHR '':'' # (''project'' @ CHR '':'' # (p @ CHR '':'' # ''currentJob'')))"
    by (simp add: current_job_key_def)
  then show ?thesis
    by (simp only: segments_append[OF p(1)] segments_append[OF u] segments_append[OF p(2)]
          segments_append[OF j] segments_plain[OF p(3)])
qed

lemma job_key_inj:
  assumes "plain u" and "plain j" and "plain u'" and "plain j'"
    and "job_key u j = job_key u' j'"
  shows "u = u' \<and> j = j'"
proof -
  have "segments (job_key u j) = segments (job_key u' j')"
    by (simp only: assms(5))
  then have "[''user'', u, ''job'', j] = [''user'', u', ''job'', j']"
    by (simp only: segments_job_key[OF assms(1,2)] segments_job_key[OF assms(3,4)])
  then show ?thesis
    by simp
qed

lemma job_key_not_project_key:
  assumes "plain u" and "plain j" and "plain u'" and "plain p"
  shows "job_key u j \<noteq> project_key u' p"
proof
  assume "job_key u j = project_key u' p"
  then have "segments (job_key u j) = segments (project_key u' p)"
    by (simp only:)
  then have "[''user'', u, ''job'', j] = [''user'', u', ''project'', p]"
    by (simp only: segments_job_key[OF assms(1,2)] segments_project_key[OF assms(3,4)])
  then show False
    by simp
qed

lemma job_key_not_current_job_key:
  assumes "plain u" and "plain j" and "plain u'" and "plain p"
  shows "job_key u j \<noteq> current_job_key u' p"
proof
  assume "job_key u j = current_job_key u' p"
  then have "segments (job_key u j) = segments (current_job_key u' p)"
    by (simp only:)
  then have "length [''user'', u, ''job'', j] = length [''user'', u', ''project'', p, ''currentJob'']"
    by (simp only: segments_job_key[OF assms(1,2)] segments_current_job_key[OF assms(3,4)])
  then show False
    by simp
qed

lemma current_job_key_inj:
  assumes "plain u" and "plain p" and "plain u'" and "plain p'"
    and "current_job_key u p = current_job_key u' p'"
  shows "u = u' \<and> p = p'"
proof -
  have "segments (current_job_key u p) = segments (current_job_key u' p')"
    by (simp only: assms(5))
  then have "[''user'', u, ''project'', p, ''currentJob''] = [''user'', u', ''project'', p', ''currentJob'']"
    by (simp only: segments_current_job_key[OF assms(1,2)] segments_current_job_key[OF assms(3,4)])
  then show ?thesis
    by simp
qed

lemma current_job_key_not_project_key:
  assumes "plain u" and "plain p" and "plain u'" and "plain p'"
  shows "current_job_key u p \<noteq> project_key u' p'"
proof
  assume "current_job_key u p = project_key u' p'"
  then have "segments (current_job_key u p) = segments (project_key u' p')"
    by (simp only:)
  then have "length [''user'', u, ''project'', p, ''currentJob''] = length [''user'', u', ''project'', p']"
    by (simp only: segments_current_job_key[OF assms(1,2)] segments_project_key[OF assms(3,4)])
  then show False
    by simp
qed

lemma run_snoc: "run (rs @ [r]) = handle r (run rs)"
  by (simp add: run_def)

lemma job_key_written:
  assumes "\<forall>r\<in>set requests. well_formed r" and "plain u" and "plain j"
    and "cache (run requests) (job_key u j) = Some v"
  shows "\<exists>p st. Generate u p j st \<in> set requests"
  using assms(1,4)
proof (induction requests arbitrary: v rule: rev_induct)
  case Nil
  then show ?case by (simp add: run_def)
next
  case (snoc r rs)
  show ?case
  proof (cases r)
    case (CreateProject u' p' d)
    with snoc.prems(1) have "plain u'" "plain p'" by auto
    with snoc.prems(2) CreateProject assms(2,3) have "cache (run rs) (job_key u j) = Some v"
      by (simp add: run_snoc job_key_not_project_key)
    with snoc.IH snoc.prems(1) show ?thesis by auto
  next
    case (Generate u' p' j' st)
    with snoc.prems(1) have pl: "plain u'" "plain p'" "plain j'" by auto
    show ?thesis
    proof (cases "job_key u j = job_key u' j'")
      case True
      with job_key_inj[OF assms(2,3) pl(1,3)] Generate show ?thesis by auto
    next
      case False
      with snoc.prems(2) Generate assms(2,3) pl have "cache (run rs) (job_key u j) = Some v"
        by (auto simp: run_snoc job_key_not_current_job_key split: if_splits)
      with snoc.IH snoc.prems(1) show ?thesis by auto
    qed
  qed
qed

lemma current_job_key_written:
  assumes "\<forall>r\<in>set requests. well_formed r" and "plain u" and "plain p"
    and "cache (run requests) (current_job_key u p) = Some v"
  shows "\<exists>st. Generate u p v st \<in> set requests"
  using assms(1,4)
proof (induction requests arbitrary: v rule: rev_induct)
  case Nil
  then show ?case by (simp add: run_def)
next
  case (snoc r rs)
  show ?case
  proof (cases r)
    case (CreateProject u' p' d)
    with snoc.prems(1) have "plain u'" "plain p'" by auto
    with snoc.prems(2) CreateProject assms(2,3) have "cache (run rs) (current_job_key u p) = Some v"
      by (simp add: run_snoc current_job_key_not_project_key)
    with snoc.IH snoc.prems(1) show ?thesis by auto
  next
    case (Generate u' p' j' st)
    with snoc.prems(1) have pl: "plain u'" "plain p'" "plain j'" by auto
    note ne = job_key_not_current_job_key[OF pl(1,3) assms(2,3)]
    show ?thesis
    proof (cases "current_job_key u p = current_job_key u' p' \<and> present (cache (run rs) (project_key u' p'))")
      case True
      with current_job_key_inj[OF assms(2,3) pl(1,2)] have "u = u'" "p = p'"
        by simp_all
      moreover from True snoc.prems(2) Generate have "v = j'"
        by (simp add: run_snoc)
      ultimately show ?thesis
        using Generate by auto
    next
      case False
      with snoc.prems(2) Generate ne have "cache (run rs) (current_job_key u p) = Some v"
        by (auto simp: run_snoc split: if_splits)
      with snoc.IH snoc.prems(1) show ?thesis by auto
    qed
  qed
qed

lemma in_job_ids: "Generate u p j st \<in> set requests \<Longrightarrow> j \<in> set (job_ids requests)"
  by (induction requests rule: job_ids.induct) auto

lemma one_owner:
  "distinct (job_ids requests) \<Longrightarrow> Generate u p j st \<in> set requests \<Longrightarrow>
     Generate u' p' j st' \<in> set requests \<Longrightarrow> u = u'"
  by (induction requests rule: job_ids.induct) (auto dest: in_job_ids)

text \<open>
  C9. Let the store be the result of any sequence of writing requests whose ids hold no
  colon and whose generated job ids are pairwise distinct, and let \<open>ownerB\<close> own the job
  \<open>jid\<close> (the store has \<open>ownerB\<close>'s key for it). For every other owner \<open>ownerA\<close>,
  \<open>GET /api/jobs/{jid}\<close> answers \<open>404 Job not found\<close> and fetches from no job object, and
  \<open>GET /api/projects/{pid}/job\<close> does not fetch from the object of \<open>jid\<close> either. Both
  handlers only read.
\<close>

theorem owner_isolation:
  assumes "\<forall>r\<in>set requests. well_formed r" and "distinct (job_ids requests)"
    and "plain ownerA" and "plain ownerB" and "plain jid"
    and "present (cache (run requests) (job_key ownerB jid))"
    and "ownerA \<noteq> ownerB"
  shows "get_job (Some ownerA) jid (run requests) = (Response 404 (Failure ''Job not found''), [])
     \<and> (plain pid \<longrightarrow> jid \<notin> set (snd (get_current_job (Some ownerA) pid (run requests))))"
proof -
  from assms(6) obtain v where "cache (run requests) (job_key ownerB jid) = Some v"
    by (cases "cache (run requests) (job_key ownerB jid)") auto
  from job_key_written[OF assms(1,4,5) this] obtain p st where
    b: "Generate ownerB p jid st \<in> set requests"
    by blast
  have "cache (run requests) (job_key ownerA jid) = None"
  proof (rule ccontr)
    assume "cache (run requests) (job_key ownerA jid) \<noteq> None"
    then obtain v' where "cache (run requests) (job_key ownerA jid) = Some v'"
      by auto
    from job_key_written[OF assms(1,3,5) this] obtain p' st' where
      "Generate ownerA p' jid st' \<in> set requests"
      by blast
    from one_owner[OF assms(2) this b] assms(7) show False
      by simp
  qed
  then have 1: "get_job (Some ownerA) jid (run requests) = (Response 404 (Failure ''Job not found''), [])"
    by (simp add: get_job_def)
  have 2: "jid \<notin> set (snd (get_current_job (Some ownerA) pid (run requests)))" if pl: "plain pid"
  proof
    assume "jid \<in> set (snd (get_current_job (Some ownerA) pid (run requests)))"
    then have "cache (run requests) (current_job_key ownerA pid) = Some jid"
      by (auto simp: get_current_job_def split: option.splits if_splits)
    from current_job_key_written[OF assms(1,3) pl this] obtain st' where
      "Generate ownerA pid jid st' \<in> set requests"
      by blast
    from one_owner[OF assms(2) this b] assms(7) show False
      by simp
  qed
  from 1 2 show ?thesis by blast
qed

theorem owner_isolation_witness:
  "list_all well_formed bobs_requests \<and> distinct (job_ids bobs_requests)
   \<and> plain ''alice'' \<and> plain ''bob'' \<and> plain ''j1'' \<and> plain ''p1''
   \<and> present (cache (run bobs_requests) (job_key ''bob'' ''j1''))
   \<and> ''alice'' \<noteq> ''bob''
   \<and> get_job (Some ''alice'') ''j1'' (run bobs_requests) = (Response 404 (Failure ''Job not found''), [])
   \<and> ''j1'' \<notin> set (snd (get_current_job (Some ''alice'') ''p1'' (run bobs_requests)))
   \<and> get_job (Some ''bob'') ''j1'' (run bobs_requests)
       = (Response 200 (JobState (Some three_polling)), [''j1''])"
proof -
  have 0: "list_all well_formed bobs_requests"
    by (simp add: bobs_requests_def plain_def)
  then have 1: "\<forall>r\<in>set bobs_requests. well_formed r"
    by (simp only: list_all_iff)
  have 2: "distinct (job_ids bobs_requests)"
    by (simp add: bobs_requests_def)
  have 3: "plain ''alice''" and 4: "plain ''bob''" and 5: "plain ''j1''" and 6: "plain ''p1''"
    by (simp_all add: plain_def)
  have 7: "present (cache (run bobs_requests) (job_key ''bob'' ''j1''))"
    by (simp add: bobs_requests_def run_def project_key_def job_key_def current_job_key_def
          job_json_def quoted_def)
  have 8: "''alice'' \<noteq> ''bob''"
    by simp
  have 9: "get_job (Some ''bob'') ''j1'' (run bobs_requests)
       = (Response 200 (JobState (Some three_polling)), [''j1''])"
    by (simp add: get_job_def bobs_requests_def run_def project_key_def job_key_def
          current_job_key_def job_json_def quoted_def)
  from owner_isolation[OF 1 2 3 4 5 7 8, of "''p1''"] 0 2 3 4 5 6 7 8 9 show ?thesis
    by blast
qed

end
